theory Spec2Isabelle
  imports Main
begin

section \<open>Data model\<close>

text \<open>
  The rows of the relational store, with the columns that the modelled functions read or
  write. A primary key that the source calls \<open>id\<close> carries the table's name as a suffix,
  since \<open>id\<close> is the identity function of HOL. An alert is also read by attribute name
  (\<open>getattr\<close>), so it carries, as \<open>alert_other\<close>, the attributes beside the three columns
  that are named in the routes, each with its value when that value is not \<open>None\<close>.
\<close>

type_synonym timestamp = int

datatype pyval = PInt int | PStr string

record user =
  id_user :: int

record task_assignee =
  task_id :: int
  user_id :: int

record case_tasks =
  id_task :: int
  task_title :: string
  task_status_id :: int
  task_case_id :: "int option"
  task_userid_open :: "int option"
  task_userid_update :: "int option"
  task_open_date :: "timestamp option"
  task_last_update :: "timestamp option"
  custom_attributes :: "(string \<times> string) list option"

record alert_status =
  status_id :: int
  status_name :: string

record alert =
  alert_id :: int
  alert_title :: string
  alert_status_id :: int
  alert_other :: "(string \<times> pyval) list"

record cases =
  case_id :: int
  name :: string
  description :: "string option"

record comments =
  comment_id :: int
  comment_text :: string
  comment_alert_id :: "int option"
  comment_user_id :: "int option"
  comment_date :: "timestamp option"
  comment_update_date :: "timestamp option"

record tables =
  user_tbl :: "user list"
  task_assignee_tbl :: "task_assignee list"
  case_tasks_tbl :: "case_tasks list"
  alert_status_tbl :: "alert_status list"
  alert_tbl :: "alert list"
  cases_tbl :: "cases list"
  comments_tbl :: "comments list"

text \<open>
  Python exceptions are values. \<open>str_exn\<close> is \<open>str(e)\<close>, the text that the routes put
  into their error response.
\<close>

datatype exn =
    ValueError string
  | AttributeError string
  | TypeError string
  | ValidationError string
  | Exception string

fun str_exn :: "exn \<Rightarrow> string" where
  "str_exn (ValueError m) = m"
| "str_exn (AttributeError m) = m"
| "str_exn (TypeError m) = m"
| "str_exn (ValidationError m) = m"
| "str_exn (Exception m) = m"

text \<open>
  The operations that a function performs on the database session and the calls it makes
  to collaborators outside the two source files are recorded, in order, in a trace. A call
  is recorded with the identifiers of the rows it is given and, where there is one, with
  the note it is given.
\<close>

datatype obj_ref = Alert_ref int | Case_ref int

datatype event =
    Commit
  | Add_task_assignee int int
  | Delete_task_assignee int int
  | Add_case_tasks case_tasks
  | Set_task_status_id int int
  | Set_alert_status_id int int
  | Set_alert alert
  | Set_case_description int string
  | Add_comments comments
  | Log_exception exn
  | Call_update_tasks_state int
  | Call_create_case_from_alert int "string option"
  | Call_create_case_from_alerts "int list" "string option"
  | Call_merge_alert_in_case int int "string option"
  | Call_ac_set_new_case_access int
  | Call_modules_hook string
  | Call_add_obj_history_entry obj_ref string
  | Call_track_activity string

text \<open>
  The state of a request: \<open>session\<close> is what the SQLAlchemy session sees (the rows with the
  writes of the open transaction), \<open>durable\<close> is what the last commit left in the database,
  \<open>next_id\<close> is the sequence that numbers inserted rows and \<open>clock_reads\<close> counts the calls
  of \<open>datetime.now()\<close>. \<open>set_order\<close> is the interpreter's part in the iteration of a set:
  \<open>set_order st xs x\<close> is the position of the element \<open>x\<close> in the hash table of the set that
  holds the elements \<open>xs\<close>.
\<close>

record state =
  session :: tables
  durable :: tables
  trace :: "event list"
  next_id :: int
  clock_reads :: nat
  set_order :: "int list \<Rightarrow> int \<Rightarrow> nat"

type_synonym 'a io = "state \<Rightarrow> state \<times> (exn + 'a)"

definition emit :: "event \<Rightarrow> state \<Rightarrow> state" where
  "emit ev st = st\<lparr>trace := trace st @ [ev]\<rparr>"

definition db_commit :: "state \<Rightarrow> state" where
  "db_commit st = emit Commit (st\<lparr>durable := session st\<rparr>)"

text \<open>
  A call of a collaborator: the collaborator may read and write the whole store and may
  raise; the trace is the caller's record and gets exactly one entry for the call.
\<close>

definition external :: "event \<Rightarrow> 'a io \<Rightarrow> 'a io" where
  "external ev f st = (case f st of (st', r) \<Rightarrow> (st'\<lparr>trace := trace st @ [ev]\<rparr>, r))"

section \<open>Python built-ins\<close>

text \<open>
  \<open>int(s)\<close> on a string of ASCII characters: white space around the literal is dropped, one
  sign is allowed, and the digits may be grouped by single underscores. Anything else is a
  \<open>ValueError\<close>. Digits outside ASCII and the interpreter's limit on the length of a
  literal are not modelled.
\<close>

definition is_space :: "char \<Rightarrow> bool" where
  "is_space c \<longleftrightarrow> c = CHR '' '' \<or> (9 \<le> (of_char c :: nat) \<and> (of_char c :: nat) \<le> 13)"

definition is_digit :: "char \<Rightarrow> bool" where
  "is_digit c \<longleftrightarrow> 48 \<le> (of_char c :: nat) \<and> (of_char c :: nat) \<le> 57"

definition digit_val :: "char \<Rightarrow> nat" where
  "digit_val c = (of_char c :: nat) - 48"

definition strip :: "string \<Rightarrow> string" where
  "strip s = rev (dropWhile is_space (rev (dropWhile is_space s)))"

fun parse_digits :: "bool \<Rightarrow> nat \<Rightarrow> string \<Rightarrow> nat option" where
  "parse_digits after_digit acc [] = (if after_digit then Some acc else None)"
| "parse_digits after_digit acc (c # cs) =
     (if is_digit c then parse_digits True (10 * acc + digit_val c) cs
      else if c = CHR ''_'' \<and> after_digit then parse_digits False acc cs
      else None)"

definition int_of_string :: "string \<Rightarrow> int option" where
  "int_of_string s =
     (case strip s of
        [] \<Rightarrow> None
      | c # cs \<Rightarrow>
          if c = CHR ''-'' then map_option (\<lambda>n. - int n) (parse_digits False 0 cs)
          else if c = CHR ''+'' then map_option int (parse_digits False 0 cs)
          else map_option int (parse_digits False 0 (c # cs)))"

text \<open>
  \<open>repr(s)\<close> of a string whose characters are code points below 256: the quote is the
  single quote, or the double quote when the string holds a single quote and no double
  quote; the backslash and the chosen quote are escaped, tab, line feed and carriage return
  are written \<open>\t\<close>, \<open>\n\<close>, \<open>\r\<close>, and every other character that is not printable is
  written \<open>\xNN\<close>. The message of the \<open>ValueError\<close> of \<open>int\<close> holds at most the first 200
  characters of that text (format \<open>%.200R\<close>).
\<close>

definition hex_digit :: "nat \<Rightarrow> char" where
  "hex_digit n = (if n < 10 then char_of (48 + n) else char_of (87 + n))"

definition printable :: "char \<Rightarrow> bool" where
  "printable c \<longleftrightarrow>
     (32 \<le> (of_char c :: nat) \<and> (of_char c :: nat) < 127)
     \<or> (160 < (of_char c :: nat) \<and> (of_char c :: nat) \<noteq> 173)"

definition repr_char :: "char \<Rightarrow> char \<Rightarrow> string" where
  "repr_char quote c =
     (if c = quote \<or> c = CHR 0x5C then [CHR 0x5C, c]
      else if c = CHR 0x09 then [CHR 0x5C, CHR ''t'']
      else if c = CHR 0x0A then [CHR 0x5C, CHR ''n'']
      else if c = CHR 0x0D then [CHR 0x5C, CHR ''r'']
      else if printable c then [c]
      else [CHR 0x5C, CHR ''x'', hex_digit ((of_char c :: nat) div 16), hex_digit ((of_char c :: nat) mod 16)])"

definition py_repr :: "string \<Rightarrow> string" where
  "py_repr s =
     (let quote = (if CHR 0x27 \<in> set s \<and> CHR 0x22 \<notin> set s then CHR 0x22 else CHR 0x27)
      in [quote] @ concat (map (repr_char quote) s) @ [quote])"

definition invalid_literal :: "string \<Rightarrow> exn" where
  "invalid_literal s =
     ValueError (''invalid literal for int() with base 10: '' @ take 200 (py_repr s))"

fun py_int :: "pyval \<Rightarrow> exn + int" where
  "py_int (PInt n) = Inr n"
| "py_int (PStr s) = (case int_of_string s of None \<Rightarrow> Inl (invalid_literal s) | Some n \<Rightarrow> Inr n)"

text \<open>\<open>str(n)\<close> of an integer: its decimal digits, with a minus sign below zero.\<close>

fun digits_of :: "nat \<Rightarrow> string" where
  "digits_of n =
     (if n < 10 then [char_of (48 + n)] else digits_of (n div 10) @ [char_of (48 + n mod 10)])"

declare digits_of.simps [simp del]

definition str_int :: "int \<Rightarrow> string" where
  "str_int i = (if i < 0 then CHR ''-'' # digits_of (nat (- i)) else digits_of (nat i))"

fun py_str :: "pyval \<Rightarrow> string" where
  "py_str (PInt n) = str_int n"
| "py_str (PStr s) = s"


text \<open>
  A Python \<open>set\<close> of integers is held as the list of its elements, without repetitions.
  The order of that list says nothing about the order in which Python iterates the set,
  which the language leaves open: a loop over a set visits the elements by their position
  in the hash table, \<open>set_order\<close>. Every order of the elements is the order of some table.
\<close>

definition py_set :: "int list \<Rightarrow> int list" where
  "py_set xs = remdups xs"

definition set_minus :: "int list \<Rightarrow> int list \<Rightarrow> int list" where
  "set_minus xs ys = filter (\<lambda>x. x \<notin> set ys) xs"

definition iterate :: "state \<Rightarrow> int list \<Rightarrow> int list" where
  "iterate st xs = sort_key (set_order st xs) xs"

section \<open>Collaborators outside the source files\<close>

text \<open>
  The functions that the two source files import from the rest of the application are
  parameters of the model. Each may change the store and may raise. \<open>datetime_now\<close> gives
  the value of the clock at its \<open>n\<close>-th reading.
\<close>

record import_args =
  iocs_list :: "string list option"
  assets_list :: "string list option"
  note_arg :: "string option"
  import_as_event :: "bool option"
  case_tags :: "string option"
  case_title :: "string option"

record externals =
  datetime_now :: "nat \<Rightarrow> timestamp"
  get_default_custom_attributes :: "string \<Rightarrow> (string \<times> string) list"
  update_tasks_state :: "int \<Rightarrow> unit io"
  create_case_from_alert :: "alert \<Rightarrow> import_args \<Rightarrow> cases option io"
  create_case_from_alerts :: "alert list \<Rightarrow> import_args \<Rightarrow> cases option io"
  merge_alert_in_case :: "alert \<Rightarrow> cases \<Rightarrow> import_args \<Rightarrow> unit io"
  ac_set_new_case_access :: "int \<Rightarrow> unit io"
  call_modules_hook_case :: "string \<Rightarrow> cases \<Rightarrow> int \<Rightarrow> cases io"
  call_modules_hook_comment :: "string \<Rightarrow> comments \<Rightarrow> alert \<Rightarrow> int \<Rightarrow> unit io"
  add_obj_history_entry :: "obj_ref \<Rightarrow> string \<Rightarrow> unit io"
  track_activity :: "string \<Rightarrow> int \<Rightarrow> unit io"
  alert_schema_load :: "(string \<times> pyval) list \<Rightarrow> alert \<Rightarrow> exn + alert"
  comment_schema_load :: "(string \<times> pyval) list \<Rightarrow> exn + comments"

definition now :: "externals \<Rightarrow> state \<Rightarrow> timestamp \<times> state" where
  "now ext st = (datetime_now ext (clock_reads st), st\<lparr>clock_reads := Suc (clock_reads st)\<rparr>)"

section \<open>Tasks: \<open>case_tasks_db.py\<close>\<close>

text \<open>
  An ORM object is the row of the session with its primary key: a write to an attribute is
  a write to that row, and a read sees what any collaborator has written to it since.
\<close>

fun update_first :: "('a \<Rightarrow> bool) \<Rightarrow> ('a \<Rightarrow> 'a) \<Rightarrow> 'a list \<Rightarrow> 'a list" where
  "update_first P f [] = []"
| "update_first P f (x # xs) = (if P x then f x # xs else x # update_first P f xs)"

definition get_task :: "state \<Rightarrow> int \<Rightarrow> int \<Rightarrow> case_tasks option" where
  "get_task st tid caseid =
     find (\<lambda>t. id_task t = tid \<and> task_case_id t = Some caseid) (case_tasks_tbl (session st))"

definition live_task :: "state \<Rightarrow> case_tasks \<Rightarrow> case_tasks" where
  "live_task st task =
     (case find (\<lambda>t. id_task t = id_task task) (case_tasks_tbl (session st)) of
        None \<Rightarrow> task
      | Some t \<Rightarrow> t)"

definition set_task_status_id :: "int \<Rightarrow> int \<Rightarrow> int \<Rightarrow> state \<Rightarrow> state" where
  "set_task_status_id tid caseid status st =
     emit (Set_task_status_id tid status)
       (st\<lparr>session := (session st)\<lparr>case_tasks_tbl :=
          update_first (\<lambda>t. id_task t = tid \<and> task_case_id t = Some caseid)
            (\<lambda>t. t\<lparr>task_status_id := status\<rparr>) (case_tasks_tbl (session st))\<rparr>\<rparr>)"

text \<open>\<open>update_task_status\<close>: the bare \<open>except\<close> turns any exception into \<open>False\<close>.\<close>

definition update_task_status :: "externals \<Rightarrow> int \<Rightarrow> int \<Rightarrow> int \<Rightarrow> state \<Rightarrow> state \<times> bool" where
  "update_task_status ext task_status tid caseid st =
     (case get_task st tid caseid of
        None \<Rightarrow> (st, False)
      | Some task \<Rightarrow>
          (case external (Call_update_tasks_state caseid) (update_tasks_state ext caseid)
                  (set_task_status_id tid caseid task_status st) of
             (st', Inl e) \<Rightarrow> (st', False)
           | (st', Inr u) \<Rightarrow> (db_commit st', True)))"

text \<open>\<open>update_task_assignees\<close>, lines 112 to 143.\<close>

definition cur_assignee_list :: "state \<Rightarrow> int \<Rightarrow> int list" where
  "cur_assignee_list st tid =
     map user_id (filter (\<lambda>r. task_id r = tid) (task_assignee_tbl (session st)))"

fun ints_of :: "pyval list \<Rightarrow> exn + int list" where
  "ints_of [] = Inr []"
| "ints_of (v # vs) =
     (case py_int v of
        Inl e \<Rightarrow> Inl e
      | Inr n \<Rightarrow> (case ints_of vs of Inl e \<Rightarrow> Inl e | Inr ns \<Rightarrow> Inr (n # ns)))"

definition assignees_to_add :: "state \<Rightarrow> int \<Rightarrow> int list \<Rightarrow> int list" where
  "assignees_to_add st tid ids = set_minus (py_set ids) (py_set (cur_assignee_list st tid))"

definition assignees_to_remove :: "state \<Rightarrow> int \<Rightarrow> int list \<Rightarrow> int list" where
  "assignees_to_remove st tid ids = set_minus (py_set (cur_assignee_list st tid)) (py_set ids)"

definition get_user :: "state \<Rightarrow> int \<Rightarrow> user option" where
  "get_user st uid = find (\<lambda>u. id_user u = uid) (user_tbl (session st))"

definition db_add_task_assignee :: "task_assignee \<Rightarrow> state \<Rightarrow> state" where
  "db_add_task_assignee ta st =
     emit (Add_task_assignee (task_id ta) (user_id ta))
       (st\<lparr>session := (session st)\<lparr>task_assignee_tbl := task_assignee_tbl (session st) @ [ta]\<rparr>\<rparr>)"

definition db_delete_task_assignee :: "int \<Rightarrow> int \<Rightarrow> state \<Rightarrow> state" where
  "db_delete_task_assignee tid uid st =
     emit (Delete_task_assignee tid uid)
       (st\<lparr>session := (session st)\<lparr>task_assignee_tbl :=
          filter (\<lambda>r. \<not> (task_id r = tid \<and> user_id r = uid)) (task_assignee_tbl (session st))\<rparr>\<rparr>)"

fun add_assignees :: "int \<Rightarrow> int list \<Rightarrow> state \<Rightarrow> state" where
  "add_assignees tid [] st = st"
| "add_assignees tid (uid # uids) st =
     add_assignees tid uids
       (case get_user st uid of
          None \<Rightarrow> st
        | Some u \<Rightarrow> db_add_task_assignee \<lparr>task_id = tid, user_id = id_user u\<rparr> st)"

fun remove_assignees :: "int \<Rightarrow> int list \<Rightarrow> state \<Rightarrow> state" where
  "remove_assignees tid [] st = st"
| "remove_assignees tid (uid # uids) st =
     remove_assignees tid uids (db_delete_task_assignee tid uid st)"

definition update_task_assignees ::
  "case_tasks option \<Rightarrow> pyval list \<Rightarrow> state \<Rightarrow> state \<times> (exn + case_tasks option)" where
  "update_task_assignees task task_assignee_list st =
     (case task of
        None \<Rightarrow> (st, Inr None)
      | Some t \<Rightarrow>
          (case ints_of task_assignee_list of
             Inl e \<Rightarrow> (st, Inl e)
           | Inr ids \<Rightarrow>
               (db_commit
                  (remove_assignees (id_task t) (iterate st (assignees_to_remove st (id_task t) ids))
                     (add_assignees (id_task t) (iterate st (assignees_to_add st (id_task t) ids)) st)),
                Inr (Some t))))"

text \<open>\<open>add_task\<close>, lines 146 to 164. The database numbers the row when it is added.\<close>

definition truthy_attributes :: "(string \<times> string) list option \<Rightarrow> bool" where
  "truthy_attributes a \<longleftrightarrow> a \<noteq> None \<and> a \<noteq> Some []"

definition db_add_case_tasks :: "case_tasks \<Rightarrow> state \<Rightarrow> case_tasks \<times> state" where
  "db_add_case_tasks task st =
     (let t = task\<lparr>id_task := next_id st\<rparr>
      in (t, emit (Add_case_tasks t)
               (st\<lparr>session := (session st)\<lparr>case_tasks_tbl := case_tasks_tbl (session st) @ [t]\<rparr>,
                   next_id := next_id st + 1\<rparr>)))"

definition add_task ::
  "externals \<Rightarrow> case_tasks \<Rightarrow> pyval list \<Rightarrow> int \<Rightarrow> int \<Rightarrow> state \<Rightarrow> state \<times> (exn + case_tasks)" where
  "add_task ext task assignee_id_list uid caseid st =
     (case now ext st of (now_v, st0) \<Rightarrow>
      (case db_add_case_tasks
              (task\<lparr>task_case_id := Some caseid,
                    task_userid_open := Some uid,
                    task_userid_update := Some uid,
                    task_open_date := Some now_v,
                    task_last_update := Some now_v,
                    custom_attributes :=
                      (if truthy_attributes (custom_attributes task) then custom_attributes task
                       else Some (get_default_custom_attributes ext ''task''))\<rparr>) st0 of
         (t, st1) \<Rightarrow>
      (case external (Call_update_tasks_state caseid) (update_tasks_state ext caseid) st1 of
         (st2, Inl e) \<Rightarrow> (st2, Inl e)
       | (st2, Inr u) \<Rightarrow>
      (case update_task_status ext (task_status_id (live_task (db_commit st2) t)) (id_task t) caseid
              (db_commit st2) of
         (st3, ok) \<Rightarrow>
      (case update_task_assignees (Some (live_task st3 t)) assignee_id_list st3 of
         (st4, Inl e) \<Rightarrow> (st4, Inl e)
       | (st4, Inr r) \<Rightarrow> (st4, Inr (live_task st4 t)))))))"

section \<open>Alerts: \<open>alerts_routes.py\<close>\<close>

text \<open>Sequencing of steps that may raise: the first exception ends the sequence.\<close>

definition io_return :: "'a \<Rightarrow> 'a io" where
  "io_return x st = (st, Inr x)"

definition io_do :: "(state \<Rightarrow> state) \<Rightarrow> unit io" where
  "io_do f st = (f st, Inr ())"

definition io_bind :: "'a io \<Rightarrow> ('a \<Rightarrow> 'b io) \<Rightarrow> 'b io" where
  "io_bind m f st = (case m st of (st', Inl e) \<Rightarrow> (st', Inl e) | (st', Inr x) \<Rightarrow> f x st')"

text \<open>
  The JSON body of the escalate and merge routes, by key, \<open>None\<close> for a key that is absent
  (\<open>data.get\<close>); the JSON body of the batch update; the responses of \<open>response_success\<close>
  and \<open>response_error\<close>, with their message and their data.
\<close>

record workflow_json =
  json_target_case_id :: "int option"
  json_alert_ids :: "string option"
  json_iocs_import_list :: "string list option"
  json_assets_import_list :: "string list option"
  json_note :: "string option"
  json_import_as_event :: "bool option"
  json_case_tags :: "string option"
  json_case_title :: "string option"

text \<open>
  The body of a batch update: the values of the keys \<open>alert_ids\<close> and \<open>updates\<close>, \<open>None\<close> for a
  key that the body does not have, and whether the body has any other key.
\<close>

record batch_update_json =
  json_alert_id_list :: "int list option"
  json_updates :: "(string \<times> pyval) list option"
  json_other_keys :: bool

datatype payload =
    No_data
  | Case_data cases
  | Alert_data alert
  | Comment_data comments
  | Messages string

datatype response =
    response_success string payload
  | response_error string payload

text \<open>
  Modelled from the spec: \<open>get_alert_by_id\<close> and \<open>get_case\<close> are defined outside the two
  source files; they fetch the row with the given identifier from the entity store, and
  give \<open>None\<close> when there is none.
\<close>

definition get_alert_by_id :: "state \<Rightarrow> int \<Rightarrow> alert option" where
  "get_alert_by_id st aid = find (\<lambda>a. alert_id a = aid) (alert_tbl (session st))"

definition get_case :: "state \<Rightarrow> int \<Rightarrow> cases option" where
  "get_case st cid = find (\<lambda>c. case_id c = cid) (cases_tbl (session st))"

definition live_alert :: "state \<Rightarrow> alert \<Rightarrow> alert" where
  "live_alert st a = (case get_alert_by_id st (alert_id a) of None \<Rightarrow> a | Some a' \<Rightarrow> a')"

definition live_case :: "state \<Rightarrow> cases \<Rightarrow> cases" where
  "live_case st c = (case get_case st (case_id c) of None \<Rightarrow> c | Some c' \<Rightarrow> c')"

definition live_comment :: "state \<Rightarrow> comments \<Rightarrow> comments" where
  "live_comment st c =
     (case find (\<lambda>r. comment_id r = comment_id c) (comments_tbl (session st)) of
        None \<Rightarrow> c
      | Some c' \<Rightarrow> c')"

text \<open>\<open>AlertStatus.query.filter_by(status_name=n).first().status_id\<close>\<close>

definition status_id_named :: "string \<Rightarrow> int io" where
  "status_id_named n st =
     (case find (\<lambda>s. status_name s = n) (alert_status_tbl (session st)) of
        None \<Rightarrow>
          (st, Inl (AttributeError
             ([CHR 0x27] @ ''NoneType'' @ [CHR 0x27] @ '' object has no attribute '' @
              [CHR 0x27] @ ''status_id'' @ [CHR 0x27])))
      | Some s \<Rightarrow> (st, Inr (status_id s)))"

definition set_alert_status_id :: "int \<Rightarrow> int \<Rightarrow> state \<Rightarrow> state" where
  "set_alert_status_id aid sid st =
     emit (Set_alert_status_id aid sid)
       (st\<lparr>session := (session st)\<lparr>alert_tbl :=
          update_first (\<lambda>a. alert_id a = aid) (\<lambda>a. a\<lparr>alert_status_id := sid\<rparr>)
            (alert_tbl (session st))\<rparr>\<rparr>)"

definition set_alert :: "int \<Rightarrow> alert \<Rightarrow> state \<Rightarrow> state" where
  "set_alert aid a' st =
     emit (Set_alert a')
       (st\<lparr>session := (session st)\<lparr>alert_tbl :=
          update_first (\<lambda>a. alert_id a = aid) (\<lambda>a. a') (alert_tbl (session st))\<rparr>\<rparr>)"

definition set_case_description :: "int \<Rightarrow> string \<Rightarrow> state \<Rightarrow> state" where
  "set_case_description cid d st =
     emit (Set_case_description cid d)
       (st\<lparr>session := (session st)\<lparr>cases_tbl :=
          update_first (\<lambda>c. case_id c = cid) (\<lambda>c. c\<lparr>description := Some d\<rparr>)
            (cases_tbl (session st))\<rparr>\<rparr>)"

definition db_add_comments :: "comments \<Rightarrow> state \<Rightarrow> comments \<times> state" where
  "db_add_comments comment st =
     (let c = comment\<lparr>comment_id := next_id st\<rparr>
      in (c, emit (Add_comments c)
               (st\<lparr>session := (session st)\<lparr>comments_tbl := comments_tbl (session st) @ [c]\<rparr>,
                   next_id := next_id st + 1\<rparr>)))"

definition escalate_args :: "workflow_json \<Rightarrow> import_args" where
  "escalate_args data =
     \<lparr>iocs_list = json_iocs_import_list data, assets_list = json_assets_import_list data,
      note_arg = json_note data, import_as_event = json_import_as_event data,
      case_tags = json_case_tags data, case_title = json_case_title data\<rparr>"

text \<open>The keyword arguments of \<open>merge_alert_in_case\<close>; it has no \<open>case_title\<close>.\<close>

definition merge_args :: "workflow_json \<Rightarrow> string option \<Rightarrow> import_args" where
  "merge_args data n =
     \<lparr>iocs_list = json_iocs_import_list data, assets_list = json_assets_import_list data,
      note_arg = n, import_as_event = json_import_as_event data,
      case_tags = json_case_tags data, case_title = None\<rparr>"

subsection \<open>\<open>alerts_escalate_route\<close>\<close>



subsection \<open>\<open>alerts_merge_route\<close>\<close>

definition merge_try :: "externals \<Rightarrow> alert \<Rightarrow> cases \<Rightarrow> workflow_json \<Rightarrow> response io" where
  "merge_try ext alert c data =
     io_bind (status_id_named ''Merged'') (\<lambda>sid.
     io_bind (io_do (set_alert_status_id (alert_id alert) sid)) (\<lambda>u.
     io_bind (io_do db_commit) (\<lambda>u.
     io_bind (\<lambda>st. external (Call_merge_alert_in_case (alert_id alert) (case_id c) (json_note data))
                (merge_alert_in_case ext (live_alert st alert) (live_case st c)
                   (merge_args data (json_note data))) st) (\<lambda>u.
     (\<lambda>st. (st, Inr (response_success [] (Case_data (live_case st c)))))))))"

definition alerts_merge_route ::
  "externals \<Rightarrow> int \<Rightarrow> int \<Rightarrow> workflow_json option \<Rightarrow> state \<Rightarrow> state \<times> response" where
  "alerts_merge_route ext aid caseid request_json st =
     (case request_json of
        None \<Rightarrow> (st, response_error ''No JSON data provided'' No_data)
      | Some data \<Rightarrow>
          (case json_target_case_id data of
             None \<Rightarrow> (st, response_error ''No target case id provided'' No_data)
           | Some target_case_id \<Rightarrow>
               (case get_alert_by_id st aid of
                  None \<Rightarrow> (st, response_error ''Alert not found'' No_data)
                | Some alert \<Rightarrow>
                    (case get_case st target_case_id of
                       None \<Rightarrow> (st, response_error ''Target case not found'' No_data)
                     | Some c \<Rightarrow>
                         (case merge_try ext alert c data st of
                            (st', Inl e) \<Rightarrow> (st', response_error (str_exn e) No_data)
                          | (st', Inr r) \<Rightarrow> (st', r))))))"

subsection \<open>\<open>alerts_batch_merge_route\<close>\<close>

text \<open>One round of the loop for an alert that was found, lines 634 to 639.\<close>

definition batch_merge_alert :: "externals \<Rightarrow> alert \<Rightarrow> cases \<Rightarrow> workflow_json \<Rightarrow> unit io" where
  "batch_merge_alert ext alert c data =
     io_bind (status_id_named ''Merged'') (\<lambda>sid.
     io_bind (io_do (set_alert_status_id (alert_id alert) sid)) (\<lambda>u.
     io_bind (io_do db_commit) (\<lambda>u.
     (\<lambda>st. external (Call_merge_alert_in_case (alert_id alert) (case_id c) None)
             (merge_alert_in_case ext (live_alert st alert) (live_case st c) (merge_args data None)) st))))"

fun batch_merge_loop :: "externals \<Rightarrow> cases \<Rightarrow> workflow_json \<Rightarrow> string list \<Rightarrow> unit io" where
  "batch_merge_loop ext c data [] st = (st, Inr ())"
| "batch_merge_loop ext c data (piece # pieces) st =
     (case py_int (PStr piece) of
        Inl e \<Rightarrow> (st, Inl e)
      | Inr aid \<Rightarrow>
          (case get_alert_by_id st aid of
             None \<Rightarrow> batch_merge_loop ext c data pieces st
           | Some alert \<Rightarrow>
               (case batch_merge_alert ext alert c data st of
                  (st', Inl e) \<Rightarrow> (st', Inl e)
                | (st', Inr u) \<Rightarrow> batch_merge_loop ext c data pieces st')))"






subsection \<open>\<open>alerts_batch_escalate_route\<close>\<close>

fun batch_escalate_loop :: "string list \<Rightarrow> alert list \<Rightarrow> alert list io" where
  "batch_escalate_loop [] alerts_list st = (st, Inr alerts_list)"
| "batch_escalate_loop (piece # pieces) alerts_list st =
     (case py_int (PStr piece) of
        Inl e \<Rightarrow> (st, Inl e)
      | Inr aid \<Rightarrow>
          (case get_alert_by_id st aid of
             None \<Rightarrow> batch_escalate_loop pieces alerts_list st
           | Some alert \<Rightarrow>
               (case status_id_named ''Merged'' st of
                  (st', Inl e) \<Rightarrow> (st', Inl e)
                | (st', Inr sid) \<Rightarrow>
                    batch_escalate_loop pieces (alerts_list @ [alert])
                      (db_commit (set_alert_status_id (alert_id alert) sid st')))))"



subsection \<open>\<open>alerts_batch_update_route\<close>\<close>

text \<open>
  \<open>getattr(alert, key, None)\<close>: the three columns by their names, every other attribute from
  \<open>alert_other\<close>; \<open>None\<close> for a name that the object does not have or whose value is \<open>None\<close>.
\<close>

definition alert_getattr :: "alert \<Rightarrow> string \<Rightarrow> pyval option" where
  "alert_getattr a key =
     (if key = ''alert_id'' then Some (PInt (alert_id a))
      else if key = ''alert_title'' then Some (PStr (alert_title a))
      else if key = ''alert_status_id'' then Some (PInt (alert_status_id a))
      else map_of (alert_other a) key)"

fun join :: "string \<Rightarrow> string list \<Rightarrow> string" where
  "join sep [] = []"
| "join sep [x] = x"
| "join sep (x # y # ys) = x @ sep @ join sep (y # ys)"

fun activity_data :: "alert \<Rightarrow> (string \<times> pyval) list \<Rightarrow> string list" where
  "activity_data a [] = []"
| "activity_data a ((key, v) # kvs) =
     (case alert_getattr a key of
        None \<Rightarrow> activity_data a kvs
      | Some old_value \<Rightarrow>
          if old_value \<noteq> v
          then ([CHR 0x22] @ key @ [CHR 0x22] @ '' from '' @ [CHR 0x22] @ py_str old_value @ [CHR 0x22] @
                '' to '' @ [CHR 0x22] @ py_str v @ [CHR 0x22]) # activity_data a kvs
          else activity_data a kvs)"

text \<open>The body of the \<open>try\<close> for one alert, lines 339 to 352.\<close>

definition batch_update_alert ::
  "externals \<Rightarrow> int \<Rightarrow> (string \<times> pyval) list \<Rightarrow> int \<Rightarrow> alert \<Rightarrow> unit io" where
  "batch_update_alert ext caseid updates aid alert st =
     (case alert_schema_load ext updates alert of
        Inl e \<Rightarrow> (st, Inl e)
      | Inr a' \<Rightarrow>
          io_bind
            (if activity_data alert updates \<noteq> [] then
               external
                 (Call_track_activity
                    (''updated alerts #'' @ str_int aid @ '': '' @ join '','' (activity_data alert updates)))
                 (track_activity ext
                    (''updated alerts #'' @ str_int aid @ '': '' @ join '','' (activity_data alert updates))
                    caseid)
             else io_return ())
            (\<lambda>u. io_do db_commit)
            (set_alert (alert_id alert) a' st))"

fun batch_update_loop ::
  "externals \<Rightarrow> int \<Rightarrow> (string \<times> pyval) list \<Rightarrow> int list \<Rightarrow> state \<Rightarrow> state \<times> response option" where
  "batch_update_loop ext caseid updates [] st = (st, None)"
| "batch_update_loop ext caseid updates (aid # aids) st =
     (case get_alert_by_id st aid of
        None \<Rightarrow> (st, Some (response_error (''Alert with ID '' @ str_int aid @ '' not found'') No_data))
      | Some alert \<Rightarrow>
          (case batch_update_alert ext caseid updates aid alert st of
             (st', Inl e) \<Rightarrow> (st', Some (response_error (str_exn e) No_data))
           | (st', Inr u) \<Rightarrow> batch_update_loop ext caseid updates aids st'))"

text \<open>
  \<open>not request.json\<close> holds when there is no body and when the body is the empty object.
  \<open>data.get('alert_ids', [])\<close> and \<open>data.get('updates', {})\<close> give the empty list for a key
  that the body does not have.
\<close>

definition empty_json :: "batch_update_json \<Rightarrow> bool" where
  "empty_json data \<longleftrightarrow>
     json_alert_id_list data = None \<and> json_updates data = None \<and> \<not> json_other_keys data"

definition get_or_empty :: "'a list option \<Rightarrow> 'a list" where
  "get_or_empty v = (case v of None \<Rightarrow> [] | Some xs \<Rightarrow> xs)"

definition alerts_batch_update_route ::
  "externals \<Rightarrow> int \<Rightarrow> batch_update_json option \<Rightarrow> state \<Rightarrow> state \<times> response" where
  "alerts_batch_update_route ext caseid request_json st =
     (case request_json of
        None \<Rightarrow> (st, response_error ''No JSON data provided'' No_data)
      | Some data \<Rightarrow>
          (if empty_json data then (st, response_error ''No JSON data provided'' No_data)
           else if get_or_empty (json_alert_id_list data) = []
           then (st, response_error ''No alert IDs provided'' No_data)
           else
             (case batch_update_loop ext caseid (get_or_empty (json_updates data))
                     (get_or_empty (json_alert_id_list data)) st of
                (st', Some r) \<Rightarrow> (st', r)
              | (st', None) \<Rightarrow> (st', response_success ''Batch update successful'' No_data))))"

subsection \<open>\<open>case_comment_add\<close>\<close>

text \<open>
  The body of the \<open>try\<close>, lines 865 to 890. The clock is read once for \<open>comment_date\<close> and
  once more for \<open>comment_update_date\<close>.
\<close>

definition comment_add_try ::
  "externals \<Rightarrow> int \<Rightarrow> int \<Rightarrow> int \<Rightarrow> (string \<times> pyval) list \<Rightarrow> response io" where
  "comment_add_try ext current_user_id aid caseid body st =
     (case get_alert_by_id st aid of
        None \<Rightarrow> (st, Inr (response_error ''Invalid alert ID'' No_data))
      | Some alert \<Rightarrow>
          (case comment_schema_load ext body of
             Inl e \<Rightarrow> (st, Inl e)
           | Inr comment \<Rightarrow>
               (case now ext st of (date, st1) \<Rightarrow>
               (case now ext st1 of (update_date, st2) \<Rightarrow>
               (case db_add_comments
                       (comment\<lparr>comment_alert_id := Some aid,
                                comment_user_id := Some current_user_id,
                                comment_date := Some date,
                                comment_update_date := Some update_date\<rparr>) st2 of
                  (c, st3) \<Rightarrow>
                    io_bind (external (Call_add_obj_history_entry (Alert_ref (alert_id alert)) ''commented'')
                               (add_obj_history_entry ext (Alert_ref (alert_id alert)) ''commented'')) (\<lambda>u.
                    io_bind (io_do db_commit) (\<lambda>u.
                    io_bind (\<lambda>st. external (Call_modules_hook ''on_postload_alert_commented'')
                               (call_modules_hook_comment ext ''on_postload_alert_commented''
                                  (live_comment st c) (live_alert st alert) caseid) st) (\<lambda>u.
                    io_bind (\<lambda>st. external
                               (Call_track_activity
                                  (''alert '' @ [CHR 0x22] @ str_int (alert_id (live_alert st alert)) @
                                   [CHR 0x22] @ '' commented''))
                               (track_activity ext
                                  (''alert '' @ [CHR 0x22] @ str_int (alert_id (live_alert st alert)) @
                                   [CHR 0x22] @ '' commented'') caseid) st) (\<lambda>u.
                    (\<lambda>st. (st, Inr (response_success ''Alert commented''
                                       (Comment_data (live_comment st c)))))))))
                      (db_commit st3))))))"

text \<open>
  Only \<open>marshmallow.exceptions.ValidationError\<close> is caught; any other exception leaves the
  route.
\<close>

definition case_comment_add ::
  "externals \<Rightarrow> int \<Rightarrow> int \<Rightarrow> int \<Rightarrow> (string \<times> pyval) list \<Rightarrow> response io" where
  "case_comment_add ext current_user_id aid caseid body st =
     (case comment_add_try ext current_user_id aid caseid body st of
        (st', Inl (ValidationError m)) \<Rightarrow> (st', Inr (response_error ''Data error'' (Messages m)))
      | (st', Inl e) \<Rightarrow> (st', Inl e)
      | (st', Inr r) \<Rightarrow> (st', Inr r))"

subsection \<open>What the database holds\<close>

text \<open>
  The status of an alert as the last commit left it in the database, and the comments that
  a sequence of operations adds.
\<close>

definition stored_alert_status :: "state \<Rightarrow> int \<Rightarrow> int option" where
  "stored_alert_status st aid =
     map_option alert_status_id (find (\<lambda>a. alert_id a = aid) (alert_tbl (durable st)))"

fun added_comments :: "event list \<Rightarrow> comments list" where
  "added_comments [] = []"
| "added_comments (Add_comments c # evs) = c # added_comments evs"
| "added_comments (ev # evs) = added_comments evs"

section \<open>Example data\<close>

text \<open>Concrete stores and rows on which the theorems below are instantiated.\<close>

definition empty_tables :: tables where
  "empty_tables =
     \<lparr>user_tbl = [], task_assignee_tbl = [], case_tasks_tbl = [], alert_status_tbl = [],
      alert_tbl = [], cases_tbl = [], comments_tbl = []\<rparr>"

definition store_of :: "tables \<Rightarrow> state" where
  "store_of T =
     \<lparr>session = T, durable = T, trace = [], next_id = 100, clock_reads = 0,
      set_order = (\<lambda>xs x. nat x)\<rparr>"

definition task1 :: case_tasks where
  "task1 =
     \<lparr>id_task = 1, task_title = ''Collect logs'', task_status_id = 1, task_case_id = Some 1,
      task_userid_open = Some 1, task_userid_update = Some 1, task_open_date = Some 10,
      task_last_update = Some 10, custom_attributes = None\<rparr>"

definition tables_assigned :: tables where
  "tables_assigned =
     empty_tables\<lparr>user_tbl := [\<lparr>id_user = 1\<rparr>, \<lparr>id_user = 2\<rparr>],
       case_tasks_tbl := [task1],
       task_assignee_tbl := [\<lparr>task_id = 1, user_id = 1\<rparr>, \<lparr>task_id = 1, user_id = 3\<rparr>,
                             \<lparr>task_id = 2, user_id = 2\<rparr>]\<rparr>"

definition new_task :: case_tasks where
  "new_task =
     \<lparr>id_task = 0, task_title = ''Collect logs'', task_status_id = 1, task_case_id = None,
      task_userid_open = None, task_userid_update = None, task_open_date = None,
      task_last_update = None, custom_attributes = None\<rparr>"

text \<open>
  Collaborators for the examples: a clock that advances with every reading, a state updater
  and hooks that do nothing, a case creation that stores and commits a new case, and
  schemas that know one field each.
\<close>

definition example_create_case :: "string \<Rightarrow> string option \<Rightarrow> cases option io" where
  "example_create_case title n st =
     (let c = \<lparr>case_id = next_id st, name = title,
                description = Some (case n of None \<Rightarrow> [] | Some t \<Rightarrow> t)\<rparr>;
          T = (session st)\<lparr>cases_tbl := cases_tbl (session st) @ [c]\<rparr>
      in (st\<lparr>session := T, durable := T, next_id := next_id st + 1\<rparr>, Inr (Some c)))"

definition ext_plain :: externals where
  "ext_plain =
     \<lparr>datetime_now = (\<lambda>n. 1000 + int n),
      get_default_custom_attributes = (\<lambda>kind. [(''priority'', ''low'')]),
      update_tasks_state = (\<lambda>caseid st. (st, Inr ())),
      create_case_from_alert = (\<lambda>a args. example_create_case (alert_title a) (note_arg args)),
      create_case_from_alerts =
        (\<lambda>alerts args.
           example_create_case (case case_title args of None \<Rightarrow> ''Batch'' | Some t \<Rightarrow> t)
             (note_arg args)),
      merge_alert_in_case = (\<lambda>a c args st. (st, Inr ())),
      ac_set_new_case_access = (\<lambda>cid st. (st, Inr ())),
      call_modules_hook_case = (\<lambda>hook c caseid st. (st, Inr c)),
      call_modules_hook_comment = (\<lambda>hook c a caseid st. (st, Inr ())),
      add_obj_history_entry = (\<lambda>obj entry st. (st, Inr ())),
      track_activity = (\<lambda>msg caseid st. (st, Inr ())),
      alert_schema_load =
        (\<lambda>updates a.
           case map_of updates ''alert_title'' of
             None \<Rightarrow> Inr a
           | Some (PStr t) \<Rightarrow> Inr (a\<lparr>alert_title := t\<rparr>)
           | Some (PInt n) \<Rightarrow> Inl (ValidationError ''Not a valid string.'')),
      comment_schema_load =
        (\<lambda>body.
           case map_of body ''comment_text'' of
             Some (PStr t) \<Rightarrow>
               Inr \<lparr>comment_id = 0, comment_text = t, comment_alert_id = None,
                    comment_user_id = None, comment_date = None, comment_update_date = None\<rparr>
           | Some (PInt n) \<Rightarrow> Inl (ValidationError ''Not a valid string.'')
           | None \<Rightarrow> Inl (ValidationError ''Missing data for required field.''))\<rparr>"

definition tables_alerts :: tables where
  "tables_alerts =
     empty_tables\<lparr>user_tbl := [\<lparr>id_user = 1\<rparr>],
       alert_status_tbl :=
         [\<lparr>status_id = 1, status_name = ''New''\<rparr>, \<lparr>status_id = 4, status_name = ''Escalated''\<rparr>,
          \<lparr>status_id = 5, status_name = ''Merged''\<rparr>],
       alert_tbl :=
         [\<lparr>alert_id = 5, alert_title = ''Beacon to rare domain'', alert_status_id = 1, alert_other = []\<rparr>,
          \<lparr>alert_id = 9, alert_title = ''Password spray'', alert_status_id = 1, alert_other = []\<rparr>],
       cases_tbl :=
         [\<lparr>case_id = 1, name = ''Phishing wave'', description = Some ''Reported by the help desk.''\<rparr>,
          \<lparr>case_id = 2, name = ''Unsorted'', description = Some []\<rparr>]\<rparr>"

definition no_fields :: workflow_json where
  "no_fields =
     \<lparr>json_target_case_id = None, json_alert_ids = None, json_iocs_import_list = None,
      json_assets_import_list = None, json_note = None, json_import_as_event = None,
      json_case_tags = None, json_case_title = None\<rparr>"

definition ext_failing :: externals where
  "ext_failing =
     ext_plain\<lparr>create_case_from_alert := (\<lambda>a args st. (st, Inl (Exception ''connection lost'')))\<rparr>"

definition ext_no_case :: externals where
  "ext_no_case = ext_plain\<lparr>create_case_from_alert := (\<lambda>a args st. (st, Inr None))\<rparr>"

text \<open>
  A merge step for the examples: it writes a line about the alert into the description of
  the case and commits.
\<close>

definition example_merge :: "alert \<Rightarrow> cases \<Rightarrow> import_args \<Rightarrow> unit io" where
  "example_merge a c args st =
     (let T = (session st)\<lparr>cases_tbl :=
                update_first (\<lambda>r. case_id r = case_id c)
                  (\<lambda>r. r\<lparr>description :=
                          Some ((case description r of None \<Rightarrow> [] | Some d \<Rightarrow> d) @
                                ''Merged: '' @ alert_title a @ ''. '')\<rparr>)
                  (cases_tbl (session st))\<rparr>
      in (st\<lparr>session := T, durable := T\<rparr>, Inr ()))"

definition ext_merging :: externals where
  "ext_merging = ext_plain\<lparr>merge_alert_in_case := example_merge\<rparr>"

section \<open>Facts about the state\<close>

lemma session_emit [simp]: "session (emit ev st) = session st"
  and durable_emit [simp]: "durable (emit ev st) = durable st"
  and trace_emit [simp]: "trace (emit ev st) = trace st @ [ev]"
  and next_id_emit [simp]: "next_id (emit ev st) = next_id st"
  and clock_reads_emit [simp]: "clock_reads (emit ev st) = clock_reads st"
  by (simp_all add: emit_def)

section \<open>The assignment reconciler\<close>

lemma get_user_Some: "get_user st uid = Some u \<Longrightarrow> id_user u = uid"
  by (auto simp: get_user_def find_Some_iff)

lemma get_user_add [simp]: "get_user (db_add_task_assignee ta st) uid = get_user st uid"
  by (simp add: get_user_def db_add_task_assignee_def)

lemma add_assignees_eq:
  "add_assignees tid uids st =
     st\<lparr>session := (session st)\<lparr>task_assignee_tbl := task_assignee_tbl (session st) @
           map (\<lambda>uid. \<lparr>task_id = tid, user_id = uid\<rparr>) (filter (\<lambda>uid. get_user st uid \<noteq> None) uids)\<rparr>,
        trace := trace st @ map (Add_task_assignee tid) (filter (\<lambda>uid. get_user st uid \<noteq> None) uids)\<rparr>"
proof (induction uids arbitrary: st)
  case Nil
  show ?case by simp
next
  case (Cons uid uids)
  show ?case
  proof (cases "get_user st uid")
    case None
    then show ?thesis using Cons.IH [of st] by simp
  next
    case (Some u)
    then have "id_user u = uid" by (rule get_user_Some)
    with Some show ?thesis
      using Cons.IH [of "db_add_task_assignee \<lparr>task_id = tid, user_id = uid\<rparr> st"]
      by (simp add: db_add_task_assignee_def emit_def get_user_def)
  qed
qed

lemma remove_assignees_eq:
  "remove_assignees tid uids st =
     st\<lparr>session := (session st)\<lparr>task_assignee_tbl :=
           filter (\<lambda>r. \<not> (task_id r = tid \<and> user_id r \<in> set uids)) (task_assignee_tbl (session st))\<rparr>,
        trace := trace st @ map (Delete_task_assignee tid) uids\<rparr>"
proof (induction uids arbitrary: st)
  case Nil
  show ?case by simp
next
  case (Cons uid uids)
  show ?case
    using Cons.IH [of "db_delete_task_assignee tid uid st"]
    by (simp add: db_delete_task_assignee_def emit_def imp_conjR)
qed


lemma set_cur_assignee_list:
  "set (cur_assignee_list st tid) = {user_id r |r. r \<in> set (task_assignee_tbl (session st)) \<and> task_id r = tid}"
  by (auto simp: cur_assignee_list_def)

lemma set_assignees_to_add [simp]:
  "set (assignees_to_add st tid ids) = set ids - set (cur_assignee_list st tid)"
  by (auto simp: assignees_to_add_def set_minus_def py_set_def)

lemma set_assignees_to_remove [simp]:
  "set (assignees_to_remove st tid ids) = set (cur_assignee_list st tid) - set ids"
  by (auto simp: assignees_to_remove_def set_minus_def py_set_def)

lemma set_iterate [simp]: "set (iterate st xs) = set xs"
  by (simp add: iterate_def)

lemma iterate_Nil [simp]: "iterate st [] = []"
  by (simp add: iterate_def)

lemma update_task_assignees_eq:
  assumes "ints_of task_assignee_list = Inr ids"
  shows "update_task_assignees (Some t) task_assignee_list st =
     (st\<lparr>session := (session st)\<lparr>task_assignee_tbl :=
            filter (\<lambda>r. \<not> (task_id r = id_task t \<and> user_id r \<in> set (assignees_to_remove st (id_task t) ids)))
              (task_assignee_tbl (session st) @
               map (\<lambda>uid. \<lparr>task_id = id_task t, user_id = uid\<rparr>)
                 (filter (\<lambda>uid. get_user st uid \<noteq> None) (iterate st (assignees_to_add st (id_task t) ids))))\<rparr>,
          durable := (session st)\<lparr>task_assignee_tbl :=
            filter (\<lambda>r. \<not> (task_id r = id_task t \<and> user_id r \<in> set (assignees_to_remove st (id_task t) ids)))
              (task_assignee_tbl (session st) @
               map (\<lambda>uid. \<lparr>task_id = id_task t, user_id = uid\<rparr>)
                 (filter (\<lambda>uid. get_user st uid \<noteq> None) (iterate st (assignees_to_add st (id_task t) ids))))\<rparr>,
          trace := trace st @
            map (Add_task_assignee (id_task t))
              (filter (\<lambda>uid. get_user st uid \<noteq> None) (iterate st (assignees_to_add st (id_task t) ids))) @
            map (Delete_task_assignee (id_task t)) (iterate st (assignees_to_remove st (id_task t) ids)) @
            [Commit]\<rparr>,
      Inr (Some t))"
  using assms
  by (simp add: update_task_assignees_def add_assignees_eq remove_assignees_eq db_commit_def emit_def)

lemma update_task_assignees_rows:
  assumes "ints_of task_assignee_list = Inr ids"
  shows "task_assignee_tbl (session (fst (update_task_assignees (Some t) task_assignee_list st))) =
     filter (\<lambda>r. \<not> (task_id r = id_task t \<and> user_id r \<in> set (assignees_to_remove st (id_task t) ids)))
       (task_assignee_tbl (session st) @
        map (\<lambda>uid. \<lparr>task_id = id_task t, user_id = uid\<rparr>)
          (filter (\<lambda>uid. get_user st uid \<noteq> None) (iterate st (assignees_to_add st (id_task t) ids))))"
  by (simp add: update_task_assignees_eq [OF assms])

lemma update_task_assignees_users:
  assumes "ints_of task_assignee_list = Inr ids"
  shows "get_user (fst (update_task_assignees (Some t) task_assignee_list st)) uid = get_user st uid"
  by (simp add: update_task_assignees_eq [OF assms] get_user_def)

lemma in_cur_assignee_list:
  "uid \<in> set (cur_assignee_list st tid) \<longleftrightarrow>
     (\<exists>r \<in> set (task_assignee_tbl (session st)). task_id r = tid \<and> user_id r = uid)"
  by (auto simp: cur_assignee_list_def)

lemma in_cur_after_update:
  assumes "ints_of task_assignee_list = Inr ids"
  shows "uid \<in> set (cur_assignee_list (fst (update_task_assignees (Some t) task_assignee_list st)) (id_task t)) \<longleftrightarrow>
     uid \<in> set ids \<and> (uid \<in> set (cur_assignee_list st (id_task t)) \<or> get_user st uid \<noteq> None)"
    (is "?L \<longleftrightarrow> ?R")
proof
  assume ?L
  then obtain r where r: "task_id r = id_task t" "user_id r = uid"
    and mem: "r \<in> set (task_assignee_tbl (session (fst (update_task_assignees (Some t) task_assignee_list st))))"
    unfolding in_cur_assignee_list by blast
  from mem have keep: "user_id r \<notin> set (assignees_to_remove st (id_task t) ids)"
    and src: "r \<in> set (task_assignee_tbl (session st)) \<or>
      (\<exists>u \<in> set (assignees_to_add st (id_task t) ids). get_user st u \<noteq> None \<and> r = \<lparr>task_id = id_task t, user_id = u\<rparr>)"
    unfolding update_task_assignees_rows [OF assms] using r by auto
  from src show ?R
  proof
    assume "r \<in> set (task_assignee_tbl (session st))"
    with r have "uid \<in> set (cur_assignee_list st (id_task t))"
      unfolding in_cur_assignee_list by blast
    with keep r show ?R by simp
  next
    assume "\<exists>u \<in> set (assignees_to_add st (id_task t) ids). get_user st u \<noteq> None \<and> r = \<lparr>task_id = id_task t, user_id = u\<rparr>"
    with r show ?R by auto
  qed
next
  assume R: ?R
  show ?L
  proof (cases "uid \<in> set (cur_assignee_list st (id_task t))")
    case True
    then obtain r where r: "r \<in> set (task_assignee_tbl (session st))" "task_id r = id_task t" "user_id r = uid"
      unfolding in_cur_assignee_list by blast
    with R have "r \<in> set (task_assignee_tbl (session (fst (update_task_assignees (Some t) task_assignee_list st))))"
      unfolding update_task_assignees_rows [OF assms] by simp
    with r show ?thesis unfolding in_cur_assignee_list by blast
  next
    case False
    with R have "\<lparr>task_id = id_task t, user_id = uid\<rparr> \<in>
        set (task_assignee_tbl (session (fst (update_task_assignees (Some t) task_assignee_list st))))"
      unfolding update_task_assignees_rows [OF assms] by auto
    then show ?thesis unfolding in_cur_assignee_list by force
  qed
qed

lemma to_remove_after_update:
  assumes "ints_of task_assignee_list = Inr ids"
  shows "assignees_to_remove (fst (update_task_assignees (Some t) task_assignee_list st)) (id_task t) ids = []"
proof -
  have "set (assignees_to_remove (fst (update_task_assignees (Some t) task_assignee_list st)) (id_task t) ids) = {}"
    by (auto simp: in_cur_after_update [OF assms])
  then show ?thesis by (simp only: set_empty)
qed

lemma to_add_after_update:
  assumes "ints_of task_assignee_list = Inr ids"
  shows "assignees_to_add (fst (update_task_assignees (Some t) task_assignee_list st)) (id_task t) ids =
     filter (\<lambda>uid. get_user st uid = None) (assignees_to_add st (id_task t) ids)"
  unfolding assignees_to_add_def set_minus_def py_set_def set_remdups filter_filter
  by (rule filter_cong) (auto simp: in_cur_after_update [OF assms])


lemma second_update_unchanged:
  assumes "ints_of task_assignee_list = Inr ids"
  shows "fst (update_task_assignees (Some t) task_assignee_list
            (fst (update_task_assignees (Some t) task_assignee_list st))) =
         emit Commit (fst (update_task_assignees (Some t) task_assignee_list st))"
proof -
  let ?st1 = "fst (update_task_assignees (Some t) task_assignee_list st)"
  have users: "\<And>uid. get_user ?st1 uid = get_user st uid"
    by (rule update_task_assignees_users [OF assms])
  have none: "filter (\<lambda>uid. get_user ?st1 uid \<noteq> None)
      (iterate ?st1 (assignees_to_add ?st1 (id_task t) ids)) = []"
    unfolding filter_empty_conv set_iterate to_add_after_update [OF assms] users by auto
  have dur: "durable ?st1 = session ?st1"
    by (simp add: update_task_assignees_eq [OF assms])
  show ?thesis
    unfolding update_task_assignees_eq [OF assms, of t ?st1] none to_remove_after_update [OF assms]
    by (simp add: emit_def dur)
qed

lemmas example_defs = empty_tables_def store_of_def task1_def tables_assigned_def

lemmas task_defs = get_user_def cur_assignee_list_def assignees_to_add_def assignees_to_remove_def
  set_minus_def py_set_def iterate_def update_task_assignees_def db_add_task_assignee_def
  db_delete_task_assignee_def db_commit_def emit_def

lemma int_of_string_9: "int_of_string '' 9 '' = Some 9"
  by (simp add: int_of_string_def strip_def is_space_def is_digit_def digit_val_def)

text \<open>
  Claim C9. The reconciler needs a task: when the task reference is absent (\<open>None\<close>) it
  returns \<open>None\<close>, its answer for a task that was not found, and it leaves the session, the
  database and the trace as they were: no row is added or deleted and nothing is committed.
\<close>

theorem update_task_assignees_absent_task:
  "update_task_assignees None task_assignee_list st = (st, Inr None)"
  by (simp add: update_task_assignees_def)

text \<open>
  Claim C7. When every element of the list converts to an integer, the reconciler raises
  nothing and returns the task. For an id of \<open>to_add\<close> without a user no row is added: after
  the call the task has no row for that id, and no add was issued for it. For an id of
  \<open>to_add\<close> whose user exists the row (task, user) is in the session after the call. The
  operations of the call are the adds, then the deletes, then one commit, which is the last
  operation; what the session holds is then what the database holds. Within the adds and
  within the deletes the ids come in the order in which the interpreter iterates the set
  (\<open>iterate\<close>, any order at all), never in the order of the list that was passed.
\<close>

theorem update_task_assignees_adds_and_commits:
  assumes "ints_of task_assignee_list = Inr ids"
  shows "snd (update_task_assignees (Some t) task_assignee_list st) = Inr (Some t)
    \<and> (\<forall>uid \<in> set (assignees_to_add st (id_task t) ids).
          (get_user st uid = None \<longrightarrow>
             (\<forall>r \<in> set (task_assignee_tbl (session (fst (update_task_assignees (Some t) task_assignee_list st)))).
                \<not> (task_id r = id_task t \<and> user_id r = uid))
             \<and> Add_task_assignee (id_task t) uid \<notin>
                 set (drop (length (trace st)) (trace (fst (update_task_assignees (Some t) task_assignee_list st)))))
        \<and> (get_user st uid \<noteq> None \<longrightarrow>
             \<lparr>task_id = id_task t, user_id = uid\<rparr> \<in>
               set (task_assignee_tbl (session (fst (update_task_assignees (Some t) task_assignee_list st))))))
    \<and> trace (fst (update_task_assignees (Some t) task_assignee_list st)) =
        trace st @
        map (Add_task_assignee (id_task t))
          (filter (\<lambda>uid. get_user st uid \<noteq> None) (iterate st (assignees_to_add st (id_task t) ids))) @
        map (Delete_task_assignee (id_task t)) (iterate st (assignees_to_remove st (id_task t) ids)) @
        [Commit]
    \<and> durable (fst (update_task_assignees (Some t) task_assignee_list st)) =
        session (fst (update_task_assignees (Some t) task_assignee_list st))"
proof (intro conjI ballI impI)
  show "snd (update_task_assignees (Some t) task_assignee_list st) = Inr (Some t)"
    by (simp add: update_task_assignees_eq [OF assms])
next
  fix uid r
  assume uid: "uid \<in> set (assignees_to_add st (id_task t) ids)" and "get_user st uid = None"
    and "r \<in> set (task_assignee_tbl (session (fst (update_task_assignees (Some t) task_assignee_list st))))"
  then show "\<not> (task_id r = id_task t \<and> user_id r = uid)"
    unfolding update_task_assignees_rows [OF assms]
    by (auto simp: set_cur_assignee_list)
next
  fix uid
  assume "uid \<in> set (assignees_to_add st (id_task t) ids)" and "get_user st uid = None"
  then show "Add_task_assignee (id_task t) uid \<notin>
      set (drop (length (trace st)) (trace (fst (update_task_assignees (Some t) task_assignee_list st))))"
    by (auto simp: update_task_assignees_eq [OF assms])
next
  fix uid
  assume "uid \<in> set (assignees_to_add st (id_task t) ids)" and "get_user st uid \<noteq> None"
  then show "\<lparr>task_id = id_task t, user_id = uid\<rparr> \<in>
      set (task_assignee_tbl (session (fst (update_task_assignees (Some t) task_assignee_list st))))"
    unfolding update_task_assignees_rows [OF assms]
    by auto
next
  show "trace (fst (update_task_assignees (Some t) task_assignee_list st)) =
        trace st @
        map (Add_task_assignee (id_task t))
          (filter (\<lambda>uid. get_user st uid \<noteq> None) (iterate st (assignees_to_add st (id_task t) ids))) @
        map (Delete_task_assignee (id_task t)) (iterate st (assignees_to_remove st (id_task t) ids)) @
        [Commit]"
    by (simp add: update_task_assignees_eq [OF assms])
next
  show "durable (fst (update_task_assignees (Some t) task_assignee_list st)) =
        session (fst (update_task_assignees (Some t) task_assignee_list st))"
    by (simp add: update_task_assignees_eq [OF assms])
qed

theorem update_task_assignees_adds_and_commits_witness:
  "ints_of [PInt 2, PStr '' 9 '', PInt 1] = Inr [2, 9, 1]
   \<and> assignees_to_add (store_of tables_assigned) 1 [2, 9, 1] = [2, 9]
   \<and> get_user (store_of tables_assigned) 9 = None
   \<and> get_user (store_of tables_assigned) 2 = Some \<lparr>id_user = 2\<rparr>
   \<and> snd (update_task_assignees (Some task1) [PInt 2, PStr '' 9 '', PInt 1] (store_of tables_assigned)) =
       Inr (Some task1)
   \<and> task_assignee_tbl (session (fst (update_task_assignees (Some task1) [PInt 2, PStr '' 9 '', PInt 1]
         (store_of tables_assigned)))) =
       [\<lparr>task_id = 1, user_id = 1\<rparr>, \<lparr>task_id = 2, user_id = 2\<rparr>, \<lparr>task_id = 1, user_id = 2\<rparr>]
   \<and> trace (fst (update_task_assignees (Some task1) [PInt 2, PStr '' 9 '', PInt 1]
         (store_of tables_assigned))) =
       [Add_task_assignee 1 2, Delete_task_assignee 1 3, Commit]
   \<and> ints_of [PInt 2, PInt 1] = Inr [2, 1]
   \<and> iterate (store_of tables_assigned) [2, 1] = [1, 2]
   \<and> trace (fst (update_task_assignees (Some (task1\<lparr>id_task := 2\<rparr>)) [PInt 2, PInt 1]
         ((store_of tables_assigned)\<lparr>session := (session (store_of tables_assigned))
             \<lparr>task_assignee_tbl := []\<rparr>\<rparr>))) =
       [Add_task_assignee 2 1, Add_task_assignee 2 2, Commit]
   \<and> trace (fst (update_task_assignees (Some (task1\<lparr>id_task := 2\<rparr>)) [PInt 2, PInt 1]
         ((store_of tables_assigned)\<lparr>session := (session (store_of tables_assigned))
             \<lparr>task_assignee_tbl := []\<rparr>, set_order := (\<lambda>xs x. nat (2 - x))\<rparr>))) =
       [Add_task_assignee 2 2, Add_task_assignee 2 1, Commit]"
proof -
  have h: "ints_of [PInt 2, PStr '' 9 '', PInt 1] = Inr [2, 9, 1]"
    by (simp add: int_of_string_9)
  have h2: "ints_of [PInt 2, PInt 1] = Inr [2, 1]"
    by simp
  show ?thesis
    using update_task_assignees_adds_and_commits [OF h, of task1 "store_of tables_assigned"]
      update_task_assignees_adds_and_commits [OF h2, of "task1\<lparr>id_task := 2\<rparr>"
        "(store_of tables_assigned)\<lparr>session := (session (store_of tables_assigned))
             \<lparr>task_assignee_tbl := []\<rparr>\<rparr>"]
      update_task_assignees_adds_and_commits [OF h2, of "task1\<lparr>id_task := 2\<rparr>"
        "(store_of tables_assigned)\<lparr>session := (session (store_of tables_assigned))
             \<lparr>task_assignee_tbl := []\<rparr>, set_order := (\<lambda>xs x. nat (2 - x))\<rparr>"]
    by (simp add: int_of_string_9 task_defs example_defs)
qed

text \<open>
  Claim C1, as stated, fails: an id of the desired list that names no user is passed over by
  the first call, so the second call finds it in \<open>to_add\<close> again. Task 1 is assigned to
  the users 1 and 3, and there is no user 9: after a call with the desired list \<open>[1, 9]\<close>, a
  second call with the same list computes \<open>to_add = [9]\<close>.
\<close>

theorem update_task_assignees_second_to_add_counterexample:
  "\<not> (assignees_to_add (fst (update_task_assignees (Some task1) [PInt 1, PInt 9] (store_of tables_assigned)))
         (id_task task1) [1, 9] = []
      \<and> assignees_to_remove (fst (update_task_assignees (Some task1) [PInt 1, PInt 9] (store_of tables_assigned)))
         (id_task task1) [1, 9] = [])"
  by (simp add: task_defs example_defs)

text \<open>
  Claim C1, amended. After a call with a desired list \<open>D\<close>, a second call with the same \<open>D\<close>
  computes an empty \<open>to_remove\<close>; its \<open>to_add\<close> holds the ids of the first call's \<open>to_add\<close>
  that name no user, and is empty when every id of \<open>D\<close> names a user. The second call
  changes no row: session and database are as the first call left them, and the one
  operation it performs is its commit. When \<open>D\<close> is the current set of assignees, \<open>to_add\<close>
  and \<open>to_remove\<close> are empty, and the call changes no row of the session.
\<close>

theorem update_task_assignees_twice:
  assumes "ints_of task_assignee_list = Inr ids"
  shows "assignees_to_remove (fst (update_task_assignees (Some t) task_assignee_list st)) (id_task t) ids = []
    \<and> assignees_to_add (fst (update_task_assignees (Some t) task_assignee_list st)) (id_task t) ids =
        filter (\<lambda>uid. get_user st uid = None) (assignees_to_add st (id_task t) ids)
    \<and> ((\<forall>uid \<in> set ids. get_user st uid \<noteq> None) \<longrightarrow>
        assignees_to_add (fst (update_task_assignees (Some t) task_assignee_list st)) (id_task t) ids = [])
    \<and> session (fst (update_task_assignees (Some t) task_assignee_list
          (fst (update_task_assignees (Some t) task_assignee_list st)))) =
        session (fst (update_task_assignees (Some t) task_assignee_list st))
    \<and> durable (fst (update_task_assignees (Some t) task_assignee_list
          (fst (update_task_assignees (Some t) task_assignee_list st)))) =
        durable (fst (update_task_assignees (Some t) task_assignee_list st))
    \<and> trace (fst (update_task_assignees (Some t) task_assignee_list
          (fst (update_task_assignees (Some t) task_assignee_list st)))) =
        trace (fst (update_task_assignees (Some t) task_assignee_list st)) @ [Commit]
    \<and> (set ids = set (cur_assignee_list st (id_task t)) \<longrightarrow>
          assignees_to_add st (id_task t) ids = []
        \<and> assignees_to_remove st (id_task t) ids = []
        \<and> session (fst (update_task_assignees (Some t) task_assignee_list st)) = session st
        \<and> trace (fst (update_task_assignees (Some t) task_assignee_list st)) = trace st @ [Commit])"
proof (intro conjI impI)
  show "assignees_to_remove (fst (update_task_assignees (Some t) task_assignee_list st)) (id_task t) ids = []"
    by (rule to_remove_after_update [OF assms])
next
  show "assignees_to_add (fst (update_task_assignees (Some t) task_assignee_list st)) (id_task t) ids =
        filter (\<lambda>uid. get_user st uid = None) (assignees_to_add st (id_task t) ids)"
    by (rule to_add_after_update [OF assms])
next
  assume "\<forall>uid \<in> set ids. get_user st uid \<noteq> None"
  then show "assignees_to_add (fst (update_task_assignees (Some t) task_assignee_list st)) (id_task t) ids = []"
    unfolding to_add_after_update [OF assms] by (auto simp: filter_empty_conv)
next
  show "session (fst (update_task_assignees (Some t) task_assignee_list
          (fst (update_task_assignees (Some t) task_assignee_list st)))) =
        session (fst (update_task_assignees (Some t) task_assignee_list st))"
    unfolding second_update_unchanged [OF assms] by simp
next
  show "durable (fst (update_task_assignees (Some t) task_assignee_list
          (fst (update_task_assignees (Some t) task_assignee_list st)))) =
        durable (fst (update_task_assignees (Some t) task_assignee_list st))"
    unfolding second_update_unchanged [OF assms] by simp
next
  show "trace (fst (update_task_assignees (Some t) task_assignee_list
          (fst (update_task_assignees (Some t) task_assignee_list st)))) =
        trace (fst (update_task_assignees (Some t) task_assignee_list st)) @ [Commit]"
    unfolding second_update_unchanged [OF assms] by simp
next
  assume eq: "set ids = set (cur_assignee_list st (id_task t))"
  have a: "set (assignees_to_add st (id_task t) ids) = {}" using eq by simp
  then show add: "assignees_to_add st (id_task t) ids = []" by (simp only: set_empty)
  have r: "set (assignees_to_remove st (id_task t) ids) = {}" using eq by simp
  then show rem: "assignees_to_remove st (id_task t) ids = []" by (simp only: set_empty)
  show "session (fst (update_task_assignees (Some t) task_assignee_list st)) = session st"
    unfolding update_task_assignees_eq [OF assms] add rem by simp
  show "trace (fst (update_task_assignees (Some t) task_assignee_list st)) = trace st @ [Commit]"
    unfolding update_task_assignees_eq [OF assms] add rem by simp
qed

theorem update_task_assignees_twice_witness:
  "ints_of [PInt 1, PStr '' 9 '', PInt 3] = Inr [1, 9, 3]
   \<and> assignees_to_add (fst (update_task_assignees (Some task1) [PInt 1, PStr '' 9 '', PInt 3]
         (store_of tables_assigned))) 1 [1, 9, 3] = [9]
   \<and> assignees_to_remove (fst (update_task_assignees (Some task1) [PInt 1, PStr '' 9 '', PInt 3]
         (store_of tables_assigned))) 1 [1, 9, 3] = []
   \<and> trace (fst (update_task_assignees (Some task1) [PInt 1, PStr '' 9 '', PInt 3]
         (fst (update_task_assignees (Some task1) [PInt 1, PStr '' 9 '', PInt 3]
            (store_of tables_assigned))))) = [Commit, Commit]
   \<and> ints_of [PInt 3, PInt 1] = Inr [3, 1]
   \<and> get_user (store_of tables_assigned) 1 = Some \<lparr>id_user = 1\<rparr>
   \<and> get_user (store_of tables_assigned) 2 = Some \<lparr>id_user = 2\<rparr>
   \<and> assignees_to_add (fst (update_task_assignees (Some task1) [PInt 1, PInt 2]
         (store_of tables_assigned))) 1 [1, 2] = []
   \<and> set [3, 1] = set (cur_assignee_list (store_of tables_assigned) (id_task task1))
   \<and> session (fst (update_task_assignees (Some task1) [PInt 3, PInt 1] (store_of tables_assigned))) =
       session (store_of tables_assigned)
   \<and> trace (fst (update_task_assignees (Some task1) [PInt 3, PInt 1] (store_of tables_assigned))) =
       [Commit]"
proof -
  have h: "ints_of [PInt 1, PStr '' 9 '', PInt 3] = Inr [1, 9, 3]"
    by (simp add: int_of_string_9)
  have h2: "ints_of [PInt 3, PInt 1] = Inr [3, 1]"
    by simp
  have h3: "ints_of [PInt 1, PInt 2] = Inr [1, 2]"
    by simp
  show ?thesis
    using update_task_assignees_twice [OF h, of task1 "store_of tables_assigned"]
      update_task_assignees_twice [OF h2, of task1 "store_of tables_assigned"]
      update_task_assignees_twice [OF h3, of task1 "store_of tables_assigned"]
    by (auto simp add: int_of_string_9 task_defs example_defs)
qed

section \<open>Adding a task\<close>

lemma update_first_same:
  "find P xs = Some r \<Longrightarrow> f r = r \<Longrightarrow> update_first P f xs = xs"
  by (induction xs) (auto split: if_splits)

lemma tasks_external:
  "case_tasks_tbl (session (fst (external ev f st))) = case_tasks_tbl (session (fst (f st)))"
  by (simp add: external_def split: prod.splits)

lemma tasks_update_task_assignees:
  "case_tasks_tbl (session (fst (update_task_assignees task lst st))) = case_tasks_tbl (session st)"
  by (simp add: update_task_assignees_def add_assignees_eq remove_assignees_eq db_commit_def
      split: option.splits sum.splits)

lemma tasks_update_task_status:
  assumes frame: "\<And>s. case_tasks_tbl (session (fst (update_tasks_state ext caseid s))) = case_tasks_tbl (session s)"
    and same: "\<And>r. get_task st tid caseid = Some r \<Longrightarrow> task_status_id r = status"
  shows "case_tasks_tbl (session (fst (update_task_status ext status tid caseid st))) =
    case_tasks_tbl (session st)"
proof (cases "get_task st tid caseid")
  case None
  then show ?thesis by (simp add: update_task_status_def)
next
  case (Some r)
  have upd: "case_tasks_tbl (session (set_task_status_id tid caseid status st)) = case_tasks_tbl (session st)"
    using Some same [OF Some]
    by (simp add: set_task_status_id_def get_task_def update_first_same)
  have "case_tasks_tbl (session (fst (external (Call_update_tasks_state caseid) (update_tasks_state ext caseid)
      (set_task_status_id tid caseid status st)))) = case_tasks_tbl (session st)"
    by (simp only: tasks_external frame upd)
  then show ?thesis
    using Some by (auto simp: update_task_status_def db_commit_def split: prod.splits sum.splits)
qed

lemma live_task_fresh:
  assumes "case_tasks_tbl (session st) = rows @ [t]" and "\<forall>r \<in> set rows. id_task r \<noteq> id_task t"
  shows "live_task st t = t"
proof -
  have "find (\<lambda>r. id_task r = id_task t) (rows @ [t]) = Some t"
    using assms(2) by (induction rows) auto
  then show ?thesis by (simp add: live_task_def assms(1))
qed

lemma get_task_fresh:
  assumes "case_tasks_tbl (session st) = rows @ [t]" and "\<forall>r \<in> set rows. id_task r \<noteq> id_task t"
    and "get_task st (id_task t) caseid = Some r"
  shows "r = t"
proof -
  have "find (\<lambda>r. id_task r = id_task t \<and> task_case_id r = Some caseid) (rows @ [t]) = Some r \<Longrightarrow> r = t"
    using assms(2) by (induction rows) (auto split: if_splits)
  then show ?thesis using assms(1,3) by (simp add: get_task_def)
qed

lemma add_task_returns:
  assumes ok: "add_task ext task assignee_id_list uid caseid st = (st', Inr t')"
    and frame: "\<And>s. case_tasks_tbl (session (fst (update_tasks_state ext caseid s))) = case_tasks_tbl (session s)"
    and fresh: "\<forall>r \<in> set (case_tasks_tbl (session st)). id_task r \<noteq> next_id st"
  shows "t' = task\<lparr>id_task := next_id st,
                    task_case_id := Some caseid,
                    task_userid_open := Some uid,
                    task_userid_update := Some uid,
                    task_open_date := Some (datetime_now ext (clock_reads st)),
                    task_last_update := Some (datetime_now ext (clock_reads st)),
                    custom_attributes :=
                      (if truthy_attributes (custom_attributes task) then custom_attributes task
                       else Some (get_default_custom_attributes ext ''task''))\<rparr>"
    (is "t' = ?t")
proof -
  let ?st0 = "st\<lparr>clock_reads := Suc (clock_reads st)\<rparr>"
  let ?rows = "case_tasks_tbl (session st)"
  obtain t st1 where add: "db_add_case_tasks
              (task\<lparr>task_case_id := Some caseid,
                    task_userid_open := Some uid,
                    task_userid_update := Some uid,
                    task_open_date := Some (datetime_now ext (clock_reads st)),
                    task_last_update := Some (datetime_now ext (clock_reads st)),
                    custom_attributes :=
                      (if truthy_attributes (custom_attributes task) then custom_attributes task
                       else Some (get_default_custom_attributes ext ''task''))\<rparr>) ?st0 = (t, st1)"
    by (cases "db_add_case_tasks
              (task\<lparr>task_case_id := Some caseid,
                    task_userid_open := Some uid,
                    task_userid_update := Some uid,
                    task_open_date := Some (datetime_now ext (clock_reads st)),
                    task_last_update := Some (datetime_now ext (clock_reads st)),
                    custom_attributes :=
                      (if truthy_attributes (custom_attributes task) then custom_attributes task
                       else Some (get_default_custom_attributes ext ''task''))\<rparr>) ?st0") 
  then have t: "t = ?t" and rows1: "case_tasks_tbl (session st1) = ?rows @ [t]"
    by (auto simp: db_add_case_tasks_def Let_def)
  have idt: "id_task t = next_id st" using t by simp
  have fresh': "\<forall>r \<in> set ?rows. id_task r \<noteq> id_task t" using fresh idt by simp
  obtain st2 r2 where ext1: "external (Call_update_tasks_state caseid) (update_tasks_state ext caseid) st1 = (st2, r2)"
    by (cases "external (Call_update_tasks_state caseid) (update_tasks_state ext caseid) st1")
  have rows2: "case_tasks_tbl (session st2) = ?rows @ [t]"
    using tasks_external [of "Call_update_tasks_state caseid" "update_tasks_state ext caseid" st1]
    by (simp add: ext1 frame rows1)
  have rows2c: "case_tasks_tbl (session (db_commit st2)) = ?rows @ [t]"
    using rows2 by (simp add: db_commit_def)
  have live2: "live_task (db_commit st2) t = t"
    by (rule live_task_fresh [OF rows2c fresh'])
  obtain st3 ok3 where uts: "update_task_status ext (task_status_id t) (id_task t) caseid (db_commit st2) = (st3, ok3)"
    by (cases "update_task_status ext (task_status_id t) (id_task t) caseid (db_commit st2)")
  have same: "\<And>r. get_task (db_commit st2) (id_task t) caseid = Some r \<Longrightarrow>
      task_status_id r = task_status_id t"
    using get_task_fresh [OF rows2c fresh'] by blast
  have rows3: "case_tasks_tbl (session st3) = ?rows @ [t]"
    using tasks_update_task_status [of ext caseid "db_commit st2" "id_task t" "task_status_id t", OF frame same]
    by (simp add: uts rows2c)
  have live3: "live_task st3 t = t"
    by (rule live_task_fresh [OF rows3 fresh'])
  obtain st4 r4 where uta: "update_task_assignees (Some t) assignee_id_list st3 = (st4, r4)"
    by (cases "update_task_assignees (Some t) assignee_id_list st3")
  have rows4: "case_tasks_tbl (session st4) = ?rows @ [t]"
    using tasks_update_task_assignees [of "Some t" assignee_id_list st3] by (simp add: uta rows3)
  have live4: "live_task st4 t = t"
    by (rule live_task_fresh [OF rows4 fresh'])
  from ok have "t' = t"
    by (simp add: add_task_def now_def add ext1 live2 uts live3 uta live4 split: sum.splits)
  with t show ?thesis by simp
qed

text \<open>
  Claim C10. For a task that \<open>add_task\<close> returns: the open date and the last update are the
  same reading of the clock, the one taken on entry; the user who opened the task and the
  user who updated it are the creating user; the case is the given case; and custom
  attributes that are absent or empty are replaced by the default custom attributes for
  \<open>task\<close>, others are kept. The state updater is assumed to leave the task rows alone, and
  the key that the database gives the new row to be unused.
\<close>

theorem add_task_fields:
  assumes "add_task ext task assignee_id_list uid caseid st = (st', Inr t')"
    and "\<And>s. case_tasks_tbl (session (fst (update_tasks_state ext caseid s))) = case_tasks_tbl (session s)"
    and "\<forall>r \<in> set (case_tasks_tbl (session st)). id_task r \<noteq> next_id st"
  shows "task_open_date t' = Some (datetime_now ext (clock_reads st))
    \<and> task_last_update t' = task_open_date t'
    \<and> task_userid_open t' = Some uid
    \<and> task_userid_update t' = task_userid_open t'
    \<and> task_case_id t' = Some caseid
    \<and> (custom_attributes task = None \<or> custom_attributes task = Some [] \<longrightarrow>
         custom_attributes t' = Some (get_default_custom_attributes ext ''task''))
    \<and> (custom_attributes task \<noteq> None \<and> custom_attributes task \<noteq> Some [] \<longrightarrow>
         custom_attributes t' = custom_attributes task)"
  unfolding add_task_returns [OF assms]
  by (auto simp: truthy_attributes_def)

lemmas add_task_defs = add_task_def now_def db_add_case_tasks_def external_def update_task_status_def
  get_task_def set_task_status_id_def live_task_def truthy_attributes_def new_task_def ext_plain_def Let_def

theorem add_task_fields_witness:
  "snd (add_task ext_plain new_task [PInt 2, PStr '' 9 ''] 7 1 (store_of tables_assigned)) =
     Inr (new_task\<lparr>id_task := 100, task_case_id := Some 1, task_userid_open := Some 7,
            task_userid_update := Some 7, task_open_date := Some 1000, task_last_update := Some 1000,
            custom_attributes := Some [(''priority'', ''low'')]\<rparr>)
   \<and> snd (add_task ext_plain (new_task\<lparr>custom_attributes := Some [(''sla'', ''4h'')]\<rparr>) [] 7 1
         (store_of tables_assigned)) =
     Inr (new_task\<lparr>id_task := 100, task_case_id := Some 1, task_userid_open := Some 7,
            task_userid_update := Some 7, task_open_date := Some 1000, task_last_update := Some 1000,
            custom_attributes := Some [(''sla'', ''4h'')]\<rparr>)"
proof -
  let ?st = "store_of tables_assigned"
  let ?t1 = "new_task\<lparr>id_task := 100, task_case_id := Some 1, task_userid_open := Some 7,
            task_userid_update := Some 7, task_open_date := Some 1000, task_last_update := Some 1000,
            custom_attributes := Some [(''priority'', ''low'')]\<rparr>"
  let ?t2 = "new_task\<lparr>id_task := 100, task_case_id := Some 1, task_userid_open := Some 7,
            task_userid_update := Some 7, task_open_date := Some 1000, task_last_update := Some 1000,
            custom_attributes := Some [(''sla'', ''4h'')]\<rparr>"
  have r1: "add_task ext_plain new_task [PInt 2, PStr '' 9 ''] 7 1 ?st =
      (fst (add_task ext_plain new_task [PInt 2, PStr '' 9 ''] 7 1 ?st), Inr ?t1)"
    by (simp add: prod_eq_iff add_task_defs int_of_string_9 task_defs example_defs)
  have r2: "add_task ext_plain (new_task\<lparr>custom_attributes := Some [(''sla'', ''4h'')]\<rparr>) [] 7 1 ?st =
      (fst (add_task ext_plain (new_task\<lparr>custom_attributes := Some [(''sla'', ''4h'')]\<rparr>) [] 7 1 ?st), Inr ?t2)"
    by (simp add: prod_eq_iff add_task_defs task_defs example_defs)
  have frame: "\<And>s. case_tasks_tbl (session (fst (update_tasks_state ext_plain 1 s))) = case_tasks_tbl (session s)"
    by (simp add: ext_plain_def)
  have fresh: "\<forall>r \<in> set (case_tasks_tbl (session ?st)). id_task r \<noteq> next_id ?st"
    by (simp add: example_defs)
  show ?thesis
    using add_task_fields [OF r1 frame fresh] add_task_fields [OF r2 frame fresh] r1 r2
    by (simp add: prod_eq_iff)
qed

section \<open>Alert rows\<close>

lemmas alert_example_defs = tables_alerts_def no_fields_def ext_failing_def ext_no_case_def
  ext_plain_def example_create_case_def ext_merging_def example_merge_def

lemmas route_defs = get_alert_by_id_def get_case_def live_alert_def live_case_def status_id_named_def
  set_alert_status_id_def set_case_description_def io_bind_def io_do_def io_return_def external_def
  db_commit_def emit_def stored_alert_status_def escalate_args_def merge_args_def





lemma get_alert_commit [simp]: "get_alert_by_id (db_commit st) b = get_alert_by_id st b"
  by (simp add: get_alert_by_id_def db_commit_def)

lemma trace_db_commit [simp]: "trace (db_commit st) = trace st @ [Commit]"
  by (simp add: db_commit_def)



lemma get_case_commit [simp]: "get_case (db_commit st) cid = get_case st cid"
  by (simp add: get_case_def db_commit_def)

lemma get_alert_set_description [simp]:
  "get_alert_by_id (set_case_description cid d st) b = get_alert_by_id st b"
  by (simp add: get_alert_by_id_def set_case_description_def)

lemma trace_set_alert_status_id [simp]:
  "trace (set_alert_status_id aid m st) = trace st @ [Set_alert_status_id aid m]"
  by (simp add: set_alert_status_id_def)


lemma stored_trace_update [simp]:
  "stored_alert_status (st\<lparr>trace := t\<rparr>) aid = stored_alert_status st aid"
  by (simp add: stored_alert_status_def)


section \<open>Merge: what must exist\<close>

text \<open>
  Claim C5. For a request whose body names a target case: when the alert is absent the
  route answers \<open>Alert not found\<close>; when the alert exists and the target case is absent it
  answers \<open>Target case not found\<close>; in both cases the state is the one the route was
  given, so the alert, its status included, is untouched and nothing is committed. A
  successful answer is only given when both exist.
\<close>

theorem alerts_merge_route_not_found:
  assumes "json_target_case_id data = Some target"
  shows "(get_alert_by_id st aid = None \<longrightarrow>
            alerts_merge_route ext aid caseid (Some data) st = (st, response_error ''Alert not found'' No_data))
    \<and> (get_alert_by_id st aid \<noteq> None \<and> get_case st target = None \<longrightarrow>
            alerts_merge_route ext aid caseid (Some data) st =
              (st, response_error ''Target case not found'' No_data))
    \<and> ((\<exists>m d. snd (alerts_merge_route ext aid caseid (Some data) st) = response_success m d) \<longrightarrow>
            get_alert_by_id st aid \<noteq> None \<and> get_case st target \<noteq> None)"
  using assms
  by (auto simp: alerts_merge_route_def split: option.splits prod.splits sum.splits)

theorem alerts_merge_route_not_found_witness:
  "json_target_case_id (no_fields\<lparr>json_target_case_id := Some 77\<rparr>) = Some 77
   \<and> get_alert_by_id (store_of tables_alerts) 7 = None
   \<and> alerts_merge_route ext_plain 7 1 (Some (no_fields\<lparr>json_target_case_id := Some 77\<rparr>))
         (store_of tables_alerts) =
       (store_of tables_alerts, response_error ''Alert not found'' No_data)
   \<and> get_case (store_of tables_alerts) 77 = None
   \<and> alerts_merge_route ext_plain 5 1 (Some (no_fields\<lparr>json_target_case_id := Some 77\<rparr>))
         (store_of tables_alerts) =
       (store_of tables_alerts, response_error ''Target case not found'' No_data)
   \<and> snd (alerts_merge_route ext_plain 5 1 (Some (no_fields\<lparr>json_target_case_id := Some 1\<rparr>))
         (store_of tables_alerts)) =
       response_success []
         (Case_data \<lparr>case_id = 1, name = ''Phishing wave'', description = Some ''Reported by the help desk.''\<rparr>)
   \<and> get_case (store_of tables_alerts) 1 =
       Some \<lparr>case_id = 1, name = ''Phishing wave'', description = Some ''Reported by the help desk.''\<rparr>"
proof -
  have h: "json_target_case_id (no_fields\<lparr>json_target_case_id := Some 77\<rparr>) = Some 77"
    by simp
  have h1: "json_target_case_id (no_fields\<lparr>json_target_case_id := Some 1\<rparr>) = Some 1"
    by simp
  show ?thesis
    using alerts_merge_route_not_found [OF h, of "store_of tables_alerts" 7 ext_plain 1]
      alerts_merge_route_not_found [OF h, of "store_of tables_alerts" 5 ext_plain 1]
      alerts_merge_route_not_found [OF h1, of "store_of tables_alerts" 5 ext_plain 1]
    by (simp add: alerts_merge_route_def merge_try_def route_defs alert_example_defs example_defs)
qed

section \<open>Escalate\<close>








section \<open>Batch update\<close>

lemma batch_update_loop_append:
  "batch_update_loop ext caseid updates (pre @ post) st =
     (case batch_update_loop ext caseid updates pre st of
        (st1, Some r) \<Rightarrow> (st1, Some r)
      | (st1, None) \<Rightarrow> batch_update_loop ext caseid updates post st1)"
  by (induction pre arbitrary: st) (auto split: option.splits prod.splits sum.splits)

text \<open>
  Claim C8. When the ids before \<open>bad\<close> have been processed without an error and \<open>bad\<close> then
  resolves to no alert, the batch update answers with the error that names \<open>bad\<close>, and the
  state is the one that processing the ids before \<open>bad\<close> has left: the ids after \<open>bad\<close> are
  not looked at. The loops of the batch merge and of the batch escalate, given a piece that
  resolves to no alert, go on with the pieces that follow.
\<close>

theorem alerts_batch_update_route_aborts:
  assumes "json_alert_id_list data = Some (pre @ bad # post)"
    and "batch_update_loop ext caseid (get_or_empty (json_updates data)) pre st = (st1, None)"
    and "get_alert_by_id st1 bad = None"
    and "py_int (PStr piece) = Inr missing" and "get_alert_by_id st missing = None"
  shows "alerts_batch_update_route ext caseid (Some data) st =
           (st1, response_error (''Alert with ID '' @ str_int bad @ '' not found'') No_data)
    \<and> batch_merge_loop ext c wdata (piece # pieces) st = batch_merge_loop ext c wdata pieces st
    \<and> batch_escalate_loop (piece # pieces) alerts_list st = batch_escalate_loop pieces alerts_list st"
  using assms
  by (simp add: alerts_batch_update_route_def empty_json_def get_or_empty_def batch_update_loop_append)

lemma str_int_7: "str_int 7 = ''7''"
  by code_simp

lemma int_of_string_7: "int_of_string ''7'' = Some 7"
  by (simp add: int_of_string_def strip_def is_space_def is_digit_def digit_val_def)

lemmas batch_update_defs = alerts_batch_update_route_def batch_update_alert_def alert_getattr_def
  set_alert_def get_or_empty_def empty_json_def

theorem alerts_batch_update_route_aborts_witness:
  "snd (alerts_batch_update_route ext_plain 1
          (Some \<lparr>json_alert_id_list = Some [5, 7, 9], json_updates = Some [(''alert_title'', PStr ''Beacon'')],
            json_other_keys = False\<rparr>)
          (store_of tables_alerts)) =
     response_error ''Alert with ID 7 not found'' No_data
   \<and> alert_tbl (durable (fst (alerts_batch_update_route ext_plain 1
          (Some \<lparr>json_alert_id_list = Some [5, 7, 9], json_updates = Some [(''alert_title'', PStr ''Beacon'')],
            json_other_keys = False\<rparr>)
          (store_of tables_alerts)))) =
     [\<lparr>alert_id = 5, alert_title = ''Beacon'', alert_status_id = 1, alert_other = []\<rparr>,
      \<lparr>alert_id = 9, alert_title = ''Password spray'', alert_status_id = 1, alert_other = []\<rparr>]
   \<and> batch_merge_loop ext_plain
         \<lparr>case_id = 1, name = ''Phishing wave'', description = Some ''Reported by the help desk.''\<rparr>
         no_fields [''7'', ''9''] (store_of tables_alerts) =
       batch_merge_loop ext_plain
         \<lparr>case_id = 1, name = ''Phishing wave'', description = Some ''Reported by the help desk.''\<rparr>
         no_fields [''9''] (store_of tables_alerts)
   \<and> batch_escalate_loop [''7'', ''9''] [] (store_of tables_alerts) =
       batch_escalate_loop [''9''] [] (store_of tables_alerts)"
proof -
  let ?st = "store_of tables_alerts"
  let ?data = "\<lparr>json_alert_id_list = Some [5, 7, 9], json_updates = Some [(''alert_title'', PStr ''Beacon'')],
            json_other_keys = False\<rparr>"
  let ?st1 = "fst (batch_update_loop ext_plain 1 (get_or_empty (json_updates ?data)) [5] ?st)"
  have ids: "json_alert_id_list ?data = Some ([5] @ 7 # [9])"
    by simp
  have pre: "batch_update_loop ext_plain 1 (get_or_empty (json_updates ?data)) [5] ?st = (?st1, None)"
    by (simp add: prod_eq_iff batch_update_defs route_defs alert_example_defs example_defs)
  have tbl: "alert_tbl (session ?st1) =
      [\<lparr>alert_id = 5, alert_title = ''Beacon'', alert_status_id = 1, alert_other = []\<rparr>,
       \<lparr>alert_id = 9, alert_title = ''Password spray'', alert_status_id = 1, alert_other = []\<rparr>]"
    "durable ?st1 = session ?st1"
    by (simp_all add: batch_update_defs route_defs alert_example_defs example_defs)
  have bad: "get_alert_by_id ?st1 7 = None"
    unfolding get_alert_by_id_def tbl by simp
  have piece: "py_int (PStr ''7'') = Inr 7"
    by (simp add: int_of_string_7)
  have missing: "get_alert_by_id ?st 7 = None"
    by (simp add: route_defs alert_example_defs example_defs)
  note run = alerts_batch_update_route_aborts [OF ids pre bad piece missing,
      where c = "\<lparr>case_id = 1, name = ''Phishing wave'', description = Some ''Reported by the help desk.''\<rparr>"
        and wdata = no_fields and pieces = "[''9'']" and alerts_list = "[]"]
  show ?thesis
  proof (intro conjI)
    show "snd (alerts_batch_update_route ext_plain 1 (Some ?data) ?st) =
        response_error ''Alert with ID 7 not found'' No_data"
      unfolding run [THEN conjunct1] by (simp add: str_int_7)
    show "alert_tbl (durable (fst (alerts_batch_update_route ext_plain 1 (Some ?data) ?st))) =
        [\<lparr>alert_id = 5, alert_title = ''Beacon'', alert_status_id = 1, alert_other = []\<rparr>,
         \<lparr>alert_id = 9, alert_title = ''Password spray'', alert_status_id = 1, alert_other = []\<rparr>]"
      unfolding run [THEN conjunct1] fst_conv tbl by (rule refl)
    show "batch_merge_loop ext_plain
         \<lparr>case_id = 1, name = ''Phishing wave'', description = Some ''Reported by the help desk.''\<rparr>
         no_fields [''7'', ''9''] ?st =
       batch_merge_loop ext_plain
         \<lparr>case_id = 1, name = ''Phishing wave'', description = Some ''Reported by the help desk.''\<rparr>
         no_fields [''9''] ?st"
      by (rule run [THEN conjunct2, THEN conjunct1])
    show "batch_escalate_loop [''7'', ''9''] [] ?st = batch_escalate_loop [''9''] [] ?st"
      by (rule run [THEN conjunct2, THEN conjunct2])
  qed
qed

section \<open>Comments\<close>

lemmas comment_defs = case_comment_add_def comment_add_try_def now_def db_add_comments_def
  live_comment_def

lemma io_bind_externalE:
  assumes "io_bind (external ev f) k st = (st', Inr y)"
  obtains s x where "trace s = trace st @ [ev]" and "k x s = (st', Inr y)"
proof -
  obtain s1 r where f: "f st = (s1, r)"
    by (cases "f st")
  with assms obtain x where "k x (s1\<lparr>trace := trace st @ [ev]\<rparr>) = (st', Inr y)"
    by (cases r) (auto simp: io_bind_def external_def)
  then show thesis
    using that [of "s1\<lparr>trace := trace st @ [ev]\<rparr>" x] by simp
qed

lemma io_bind_external_liveE:
  assumes "io_bind (\<lambda>s. external (ev s) (f s) s) k st = (st', Inr y)"
  obtains s x where "trace s = trace st @ [ev st]" and "k x s = (st', Inr y)"
proof -
  obtain s1 r where f: "f st st = (s1, r)"
    by (cases "f st st")
  with assms obtain x where "k x (s1\<lparr>trace := trace st @ [ev st]\<rparr>) = (st', Inr y)"
    by (cases r) (auto simp: io_bind_def external_def)
  then show thesis
    using that [of "s1\<lparr>trace := trace st @ [ev st]\<rparr>" x] by simp
qed

lemma io_bind_doE:
  assumes "io_bind (io_do g) k st = (st', Inr y)"
  obtains "k () (g st) = (st', Inr y)"
  using assms by (auto simp: io_bind_def io_do_def)

lemma added_comments_append [simp]:
  "added_comments (xs @ ys) = added_comments xs @ added_comments ys"
  by (induction xs rule: added_comments.induct) auto

lemma comment_add_try_success:
  assumes run: "comment_add_try ext uid aid caseid body st = (st', Inr (response_success m d))"
  shows "map (\<lambda>c. (comment_alert_id c, comment_user_id c, comment_date c, comment_update_date c))
           (added_comments (drop (length (trace st)) (trace st'))) =
         [(Some aid, Some uid, Some (datetime_now ext (clock_reads st)),
           Some (datetime_now ext (Suc (clock_reads st))))]"
proof -
  from run obtain alert where alert: "get_alert_by_id st aid = Some alert"
    by (auto simp: comment_add_try_def split: option.splits)
  from run alert obtain comment where load: "comment_schema_load ext body = Inr comment"
    by (auto simp: comment_add_try_def split: sum.splits)
  from run show ?thesis
    unfolding comment_add_try_def alert load now_def db_add_comments_def Let_def
    apply (simp only: option.case sum.case prod.case)
    apply (elim io_bind_externalE io_bind_external_liveE io_bind_doE)
    apply (simp add: emit_def)
    done
qed

text \<open>
  Claim C6, as stated, fails: the route reads the clock once for the creation date and once
  more for the update date, and the two readings need not agree. With a clock that has
  advanced between the readings the comment is created with the dates 1000 and 1001.
\<close>

theorem case_comment_add_two_clock_readings_counterexample:
  "snd (case_comment_add ext_plain 3 5 1 [(''comment_text'', PStr ''Seen on two hosts'')]
          (store_of tables_alerts)) =
     Inr (response_success ''Alert commented''
            (Comment_data \<lparr>comment_id = 100, comment_text = ''Seen on two hosts'',
               comment_alert_id = Some 5, comment_user_id = Some 3,
               comment_date = Some 1000, comment_update_date = Some 1001\<rparr>))
   \<and> map (\<lambda>c. (comment_date c, comment_update_date c))
         (comments_tbl (durable (fst (case_comment_add ext_plain 3 5 1
            [(''comment_text'', PStr ''Seen on two hosts'')] (store_of tables_alerts))))) =
       [(Some 1000, Some 1001)]"
  by (simp add: comment_defs route_defs alert_example_defs example_defs Let_def)

text \<open>
  Claim C6, amended. For every successful comment creation the route adds exactly one
  comment; its alert reference is the alert of the request, its author is the requesting
  user, and both dates are set: the creation date is the reading of the clock taken first,
  the update date is the reading taken next. The dates are equal when the two readings are.
\<close>

theorem case_comment_add_created_comment:
  assumes "snd (case_comment_add ext uid aid caseid body st) = Inr (response_success m d)"
  shows "map (\<lambda>c. (comment_alert_id c, comment_user_id c, comment_date c, comment_update_date c))
           (added_comments (drop (length (trace st))
              (trace (fst (case_comment_add ext uid aid caseid body st))))) =
         [(Some aid, Some uid, Some (datetime_now ext (clock_reads st)),
           Some (datetime_now ext (Suc (clock_reads st))))]"
proof -
  obtain st' r where run: "comment_add_try ext uid aid caseid body st = (st', r)"
    by (cases "comment_add_try ext uid aid caseid body st")
  with assms have r: "r = Inr (response_success m d)"
    by (auto simp: case_comment_add_def split: sum.splits exn.splits)
  have fin: "fst (case_comment_add ext uid aid caseid body st) = st'"
    by (simp add: case_comment_add_def run r)
  from comment_add_try_success [OF run [unfolded r]] show ?thesis
    unfolding fin .
qed

theorem case_comment_add_created_comment_witness:
  "snd (case_comment_add ext_plain 3 5 1 [(''comment_text'', PStr ''Seen on two hosts'')]
          (store_of tables_alerts)) =
     Inr (response_success ''Alert commented''
            (Comment_data \<lparr>comment_id = 100, comment_text = ''Seen on two hosts'',
               comment_alert_id = Some 5, comment_user_id = Some 3,
               comment_date = Some 1000, comment_update_date = Some 1001\<rparr>))
   \<and> map (\<lambda>c. (comment_alert_id c, comment_user_id c, comment_date c, comment_update_date c))
         (added_comments (drop (length (trace (store_of tables_alerts)))
            (trace (fst (case_comment_add ext_plain 3 5 1
               [(''comment_text'', PStr ''Seen on two hosts'')] (store_of tables_alerts)))))) =
       [(Some 5, Some 3, Some 1000, Some 1001)]"
proof -
  have run: "snd (case_comment_add ext_plain 3 5 1 [(''comment_text'', PStr ''Seen on two hosts'')]
          (store_of tables_alerts)) =
     Inr (response_success ''Alert commented''
            (Comment_data \<lparr>comment_id = 100, comment_text = ''Seen on two hosts'',
               comment_alert_id = Some 5, comment_user_id = Some 3,
               comment_date = Some 1000, comment_update_date = Some 1001\<rparr>))"
    by (simp add: comment_defs route_defs alert_example_defs example_defs Let_def)
  have clock: "datetime_now ext_plain (clock_reads (store_of tables_alerts)) = 1000"
    "datetime_now ext_plain (Suc (clock_reads (store_of tables_alerts))) = 1001"
    by (simp_all add: ext_plain_def store_of_def)
  show ?thesis
    using case_comment_add_created_comment [OF run] run
    unfolding clock by (intro conjI)
qed

section \<open>Batch escalate\<close>














section \<open>Batch merge\<close>








end
